theory Spec2Isabelle
  imports Complex_Main "HOL-Library.Log_Nat"
begin

section \<open>Decimal arithmetic\<close>

text \<open>
  \<^verbatim>\<open>CreditService.ts\<close> computes every amount with decimal.js, configured once by
  \<^verbatim>\<open>Decimal.set({ precision: 20, rounding: Decimal.ROUND_HALF_UP })\<close>.
  A finite Decimal is a rational number; \<^verbatim>\<open>new Decimal(v)\<close> keeps the decimal value of
  its argument unchanged, while \<^verbatim>\<open>plus\<close>, \<^verbatim>\<open>minus\<close>, \<^verbatim>\<open>mul\<close> and \<^verbatim>\<open>div\<close> round
  their exact result to 20 significant digits, ties away from zero.
  A JavaScript number that reaches the service is modelled by the decimal value that
  \<^verbatim>\<open>new Decimal\<close> gives it (a finite number; NaN and the infinities are not modelled).
\<close>

type_synonym decimal = rat

definition round_half_up :: "rat \<Rightarrow> int" where
  \<comment> \<open>ROUND\_HALF\_UP: to the nearest integer, a tie goes away from zero.\<close>
  "round_half_up y = (if 0 \<le> y then \<lfloor>y + 1 / 2\<rfloor> else - \<lfloor>- y + 1 / 2\<rfloor>)"

definition dec_exponent :: "rat \<Rightarrow> int" where
  \<comment> \<open>The decimal exponent \<open>e\<close> of a non-zero value: \<open>10\<^sup>e \<le> \<bar>x\<bar> < 10\<^sup>e\<^sup>+\<^sup>1\<close>.\<close>
  "dec_exponent x =
     (if 1 \<le> \<bar>x\<bar> then int (floorlog 10 (nat \<lfloor>\<bar>x\<bar>\<rfloor>)) - 1
      else - int (floorlog 10 (nat (\<lceil>1 / \<bar>x\<bar>\<rceil> - 1))))"

definition scale10 :: "rat \<Rightarrow> int \<Rightarrow> rat" where
  \<comment> \<open>\<open>x \<sqdot> 10\<^sup>k\<close> for an integer \<open>k\<close> of either sign.\<close>
  "scale10 x k = (if 0 \<le> k then x * 10 ^ nat k else x / 10 ^ nat (- k))"

definition precision :: nat where
  \<comment> \<open>\<^verbatim>\<open>Decimal.set({ precision: 20, ... })\<close>\<close>
  "precision = 20"

definition dec_round :: "rat \<Rightarrow> decimal" where
  \<comment> \<open>Rounding to \<^verbatim>\<open>precision\<close> significant digits with ROUND\_HALF\_UP: the value is
      scaled so that its leading digit is the first of \<open>precision\<close> integer digits, rounded
      to an integer, and scaled back.\<close>
  "dec_round x =
     (if x = 0 then 0
      else let k = int precision - 1 - dec_exponent x
           in scale10 (of_int (round_half_up (scale10 x k))) (- k))"

definition dec_plus :: "decimal \<Rightarrow> decimal \<Rightarrow> decimal" where
  "dec_plus a b = dec_round (a + b)"

definition dec_minus :: "decimal \<Rightarrow> decimal \<Rightarrow> decimal" where
  "dec_minus a b = dec_round (a - b)"

definition dec_mul :: "decimal \<Rightarrow> decimal \<Rightarrow> decimal" where
  "dec_mul a b = dec_round (a * b)"

definition dec_div :: "decimal \<Rightarrow> decimal \<Rightarrow> decimal" where
  \<comment> \<open>For a non-zero divisor. decimal.js gives Infinity or NaN for a zero divisor; the
      callers below test the divisor first.\<close>
  "dec_div a b = dec_round (a / b)"

definition dec_lt :: "decimal \<Rightarrow> decimal \<Rightarrow> bool" where
  "dec_lt a b \<longleftrightarrow> a < b"

definition toDecimalPlaces_ceil :: "decimal \<Rightarrow> decimal" where
  \<comment> \<open>\<^verbatim>\<open>toDecimalPlaces(0, Decimal.ROUND_CEIL)\<close>: the least integer not below the value.\<close>
  "toDecimalPlaces_ceil x = of_int \<lceil>x\<rceil>"

definition toFixed :: "nat \<Rightarrow> decimal \<Rightarrow> decimal" where
  \<comment> \<open>The value that the string \<^verbatim>\<open>x.toFixed(dp)\<close> denotes: \<open>x\<close> rounded to \<open>dp\<close> decimal
      places with the configured ROUND\_HALF\_UP.\<close>
  "toFixed dp x = of_int (round_half_up (x * 10 ^ dp)) / 10 ^ dp"

section \<open>Calendar dates\<close>

text \<open>
  A JavaScript \<^verbatim>\<open>Date\<close> read in local time: year, month (0 to 11, as
  \<^verbatim>\<open>getMonth\<close> counts), day of the month and the time of day in milliseconds.
  \<^verbatim>\<open>setMonth\<close> and \<^verbatim>\<open>setDate\<close> replace one field and then normalise the date as
  ECMAScript's MakeDay does: whole years are carried out of the month, and a day outside
  the month rolls into the following or preceding months. Daylight-saving shifts are not
  modelled.
\<close>

record js_date =
  date_year :: int
  date_month :: int
  date_day :: int
  date_time :: int

definition leap_year :: "int \<Rightarrow> bool" where
  "leap_year y \<longleftrightarrow> (y mod 4 = 0 \<and> y mod 100 \<noteq> 0) \<or> y mod 400 = 0"

definition days_in_month :: "int \<Rightarrow> int \<Rightarrow> int" where
  "days_in_month y m =
     (if m = 1 then (if leap_year y then 29 else 28)
      else if m = 3 \<or> m = 5 \<or> m = 8 \<or> m = 10 then 30
      else 31)"

function roll_day :: "int \<Rightarrow> int \<Rightarrow> int \<Rightarrow> int \<times> int \<times> int" where
  "roll_day y m d =
     (if days_in_month y m < d then
        (if m = 11 then roll_day (y + 1) 0 (d - days_in_month y m)
         else roll_day y (m + 1) (d - days_in_month y m))
      else if d < 1 then
        (if m = 0 then roll_day (y - 1) 11 (d + days_in_month (y - 1) 11)
         else roll_day y (m - 1) (d + days_in_month y (m - 1)))
      else (y, m, d))"
  by pat_completeness auto
termination
  by (relation "measure (\<lambda>(y, m, d). if d < 1 then nat (32 - d) else nat d)")
     (auto simp: days_in_month_def)

declare roll_day.simps [simp del]

definition make_date :: "int \<Rightarrow> int \<Rightarrow> int \<Rightarrow> int \<Rightarrow> js_date" where
  "make_date y m d t =
     (case roll_day (y + m div 12) (m mod 12) d of
        (y', m', d') \<Rightarrow> \<lparr> date_year = y', date_month = m', date_day = d', date_time = t \<rparr>)"

definition getMonth :: "js_date \<Rightarrow> int" where
  "getMonth dt = date_month dt"

definition setMonth :: "js_date \<Rightarrow> int \<Rightarrow> js_date" where
  "setMonth dt m = make_date (date_year dt) m (date_day dt) (date_time dt)"

definition setDate :: "js_date \<Rightarrow> int \<Rightarrow> js_date" where
  "setDate dt d = make_date (date_year dt) (date_month dt) d (date_time dt)"

definition setHours0 :: "js_date \<Rightarrow> js_date" where
  \<comment> \<open>\<^verbatim>\<open>setHours(0, 0, 0, 0)\<close>\<close>
  "setHours0 dt = dt \<lparr> date_time := 0 \<rparr>"

section \<open>Persisted entities\<close>

text \<open>
  The tables are lists of rows in insertion order. A primary key is named after its
  table (\<open>scheme_id\<close>, \<open>product_id\<close>, \<open>customer_id\<close>, \<open>tx_id\<close>, \<open>cc_id\<close>,
  \<open>inst_id\<close>) because several rows carry foreign keys called \<^verbatim>\<open>transaction_id\<close> and
  \<^verbatim>\<open>contract_id\<close>. Amount columns hold the value handed to the storage layer.
\<close>

record LoanScheme =
  scheme_id :: int
  scheme_name :: string
  interest_rate :: decimal
  min_dp_percent :: decimal
  tenor_options :: "int list"
  penalty_fee_daily :: decimal
  scheme_is_active :: bool

record Product =
  product_id :: int
  sku :: string
  product_name :: string
  base_price :: decimal
  stock_qty :: int
  category :: string
  sub_category :: string
  product_is_active :: bool

record Customer =
  customer_id :: int
  nik :: string
  cust_name :: string
  phone :: string
  address :: string

datatype TransactionStatus = TX_PENDING | TX_ACTIVE | TX_PAID | TX_VOID | TX_BAD_DEBT

datatype InstallmentStatus = UNPAID | PARTIAL | PAID | LATE

record Transaction =
  tx_id :: int
  tx_customerId :: int
  tx_productId :: int
  customer_name :: string
  customer_phone :: string
  customer_ktp :: string
  total_price :: decimal
  dp_amount :: decimal
  scheme_snapshot :: LoanScheme
  tx_status :: TransactionStatus

record CreditContract =
  cc_id :: int
  transaction_id :: int
  principal_amount :: decimal
  total_interest :: decimal
  monthly_installment :: decimal
  start_date :: js_date
  due_date_day :: int
  tenor_months :: int

record Installment =
  inst_id :: int
  contract_id :: int
  installment_nth :: int
  due_date :: js_date
  amount_due :: decimal
  amount_paid :: decimal
  penalty_paid :: decimal
  penalty_accrued :: decimal
  status :: InstallmentStatus
  paid_at :: "js_date option"

record db =
  loanScheme_rows :: "LoanScheme list"
  product_rows :: "Product list"
  customer_rows :: "Customer list"
  transaction_rows :: "Transaction list"
  creditContract_rows :: "CreditContract list"
  installment_rows :: "Installment list"

definition findUnique :: "('r \<Rightarrow> int) \<Rightarrow> 'r list \<Rightarrow> int \<Rightarrow> 'r option" where
  \<comment> \<open>\<^verbatim>\<open>findUnique({ where: { id } })\<close>\<close>
  "findUnique key rows k = find (\<lambda>r. key r = k) rows"

definition update_where :: "('r \<Rightarrow> int) \<Rightarrow> int \<Rightarrow> ('r \<Rightarrow> 'r) \<Rightarrow> 'r list \<Rightarrow> 'r list" where
  \<comment> \<open>\<^verbatim>\<open>update({ where: { id }, data })\<close> on a row that exists\<close>
  "update_where key k f rows = map (\<lambda>r. if key r = k then f r else r) rows"

definition next_id :: "int list \<Rightarrow> int" where
  \<comment> \<open>The autoincrement key of a new row: an id above every id in the table.\<close>
  "next_id ids = fold max ids 0 + 1"

definition prisma_transaction :: "(db \<Rightarrow> 'e + db \<times> 'a) \<Rightarrow> db \<Rightarrow> db \<times> ('e + 'a)" where
  \<comment> \<open>\<^verbatim>\<open>prisma.$transaction(async (tx) => ...)\<close>: the writes of the callback are kept when
      it returns and discarded when it throws.\<close>
  "prisma_transaction body d =
     (case body d of
        Inl e \<Rightarrow> (d, Inl e)
      | Inr (d', r) \<Rightarrow> (d', Inr r))"

section \<open>Errors and their messages\<close>

text \<open>
  Every \<^verbatim>\<open>throw new Error(...)\<close> of the service and of the payment handler is one
  constructor, holding the values its message interpolates. Two constructors stand for
  exceptions that the code does not raise itself: \<open>NonFiniteAmount\<close> for the one place
  where decimal.js leaves the finite numbers (the division by \<^verbatim>\<open>tenorMonths = 0\<close>
  gives Infinity or NaN, which no amount column stores), and \<open>LibraryError\<close> for an
  exception of the storage layer or the runtime (a row that a reference points to is
  absent, an argument of the wrong kind).
\<close>

datatype error =
    SchemeNotFound int
  | SchemeNotActive string
  | TenorNotAvailable int "int list"
  | DpBelowMinimum decimal decimal decimal
  | InvalidDueDateDay
  | ProductNotFound int
  | ProductNotActive string
  | ProductOutOfStock string
  | CustomerNotFound int
  | InstallmentNotFound
  | InstallmentAlreadyPaid
  | NonFiniteAmount
  | LibraryError

text \<open>
  Texts that come from outside the repository are parameters of \<open>message\<close>:
  \<^verbatim>\<open>Decimal.prototype.toString\<close> and the message of a library exception.
\<close>

record library =
  decimal_toString :: "decimal \<Rightarrow> string"
  library_error_text :: string

fun show_nat :: "nat \<Rightarrow> string" where
  "show_nat n =
     (if n < 10 then [''0123456789'' ! n]
      else show_nat (n div 10) @ [''0123456789'' ! (n mod 10)])"

declare show_nat.simps [simp del]

definition show_int :: "int \<Rightarrow> string" where
  \<comment> \<open>A whole number interpolated into a template literal.\<close>
  "show_int i = (if i < 0 then ''-'' @ show_nat (nat (- i)) else show_nat (nat i))"

fun join :: "string list \<Rightarrow> string \<Rightarrow> string" where
  "join [] sep = []"
| "join [x] sep = x"
| "join (x # y # ys) sep = x @ sep @ join (y # ys) sep"

definition message :: "library \<Rightarrow> error \<Rightarrow> string" where
  "message lib e =
     (case e of
        SchemeNotFound sid \<Rightarrow> ''Loan scheme with ID '' @ show_int sid @ '' not found''
      | SchemeNotActive nm \<Rightarrow> ''Loan scheme \"'' @ nm @ ''\" is not active''
      | TenorNotAvailable t opts \<Rightarrow>
          ''Tenor '' @ show_int t @ '' bulan tidak tersedia. Pilihan: ''
            @ join (map show_int opts) '', '' @ '' bulan''
      | DpBelowMinimum pct amt d \<Rightarrow>
          ''DP minimal '' @ decimal_toString lib pct @ ''% dari harga (Rp ''
            @ show_int (round_half_up amt) @ ''). DP yang dimasukkan: Rp ''
            @ show_int (round_half_up d)
      | InvalidDueDateDay \<Rightarrow> ''Tanggal jatuh tempo harus antara 1-28''
      | ProductNotFound pid \<Rightarrow> ''Produk dengan ID '' @ show_int pid @ '' tidak ditemukan''
      | ProductNotActive nm \<Rightarrow> ''Produk \"'' @ nm @ ''\" tidak aktif''
      | ProductOutOfStock nm \<Rightarrow> ''Stok produk \"'' @ nm @ ''\" habis''
      | CustomerNotFound cid \<Rightarrow> ''Customer dengan ID '' @ show_int cid @ '' tidak ditemukan''
      | InstallmentNotFound \<Rightarrow> ''Installment not found''
      | InstallmentAlreadyPaid \<Rightarrow> ''Installment is already paid''
      | NonFiniteAmount \<Rightarrow> library_error_text lib
      | LibraryError \<Rightarrow> library_error_text lib)"

section \<open>CreditService\<close>

record SimulationInput =
  price :: rat
  dp :: rat
  schemeId :: int
  tenorMonths :: int

text \<open>
  The \<^verbatim>\<open>display\<close> and \<^verbatim>\<open>raw\<close> parts of a \<^verbatim>\<open>SimulationResult\<close> have the same
  shape. A \<^verbatim>\<open>display\<close> field is the string \<^verbatim>\<open>toFixed(2)\<close> of the raw value; it is
  held here as the value that string denotes.
\<close>

record SimulationFigures =
  sim_price :: decimal
  sim_dp :: decimal
  principal :: decimal
  interestRate :: decimal
  interestAmount :: decimal
  totalLoan :: decimal
  monthlyInstallment :: decimal
  sim_tenorMonths :: int

record SimulationResult =
  display :: SimulationFigures
  raw :: SimulationFigures
  scheme :: LoanScheme

definition calculateSimulation :: "db \<Rightarrow> SimulationInput \<Rightarrow> error + SimulationResult" where
  \<comment> \<open>\<^verbatim>\<open>CreditService.calculateSimulation\<close>, reading the tables through the global
      \<^verbatim>\<open>prisma\<close> client\<close>
  "calculateSimulation prisma inp =
     (case findUnique scheme_id (loanScheme_rows prisma) (schemeId inp) of
        None \<Rightarrow> Inl (SchemeNotFound (schemeId inp))
      | Some sch \<Rightarrow>
          if \<not> scheme_is_active sch then Inl (SchemeNotActive (scheme_name sch))
          else
            let allowedTenors = tenor_options sch in
            if tenorMonths inp \<notin> set allowedTenors
            then Inl (TenorNotAvailable (tenorMonths inp) allowedTenors)
            else
              let priceDecimal = price inp;
                  dpDecimal = dp inp;
                  minDpPercent = min_dp_percent sch;
                  minDpAmount = dec_div (dec_mul priceDecimal minDpPercent) 100
              in
              if dec_lt dpDecimal minDpAmount
              then Inl (DpBelowMinimum minDpPercent minDpAmount dpDecimal)
              else
                let principal_v = dec_minus priceDecimal dpDecimal;
                    interestRate_v = interest_rate sch;
                    interestAmount_v =
                      dec_mul (dec_div (dec_mul principal_v interestRate_v) 100)
                        (of_int (tenorMonths inp));
                    totalLoan_v = dec_plus principal_v interestAmount_v
                in
                if tenorMonths inp = 0 then Inl NonFiniteAmount
                else
                  let monthlyInstallment_v =
                        toDecimalPlaces_ceil (dec_div totalLoan_v (of_int (tenorMonths inp)))
                  in Inr \<lparr> display =
                             \<lparr> sim_price = toFixed 2 priceDecimal,
                               sim_dp = toFixed 2 dpDecimal,
                               principal = toFixed 2 principal_v,
                               interestRate = toFixed 2 interestRate_v,
                               interestAmount = toFixed 2 interestAmount_v,
                               totalLoan = toFixed 2 totalLoan_v,
                               monthlyInstallment = toFixed 2 monthlyInstallment_v,
                               sim_tenorMonths = tenorMonths inp \<rparr>,
                           raw =
                             \<lparr> sim_price = priceDecimal,
                               sim_dp = dpDecimal,
                               principal = principal_v,
                               interestRate = interestRate_v,
                               interestAmount = interestAmount_v,
                               totalLoan = totalLoan_v,
                               monthlyInstallment = monthlyInstallment_v,
                               sim_tenorMonths = tenorMonths inp \<rparr>,
                           scheme = sch \<rparr>)"

definition calculateSimulationWithTx :: "db \<Rightarrow> SimulationInput \<Rightarrow> error + SimulationResult" where
  \<comment> \<open>\<^verbatim>\<open>CreditService.calculateSimulationWithTx\<close>: the same steps, reading through the
      transaction client \<^verbatim>\<open>tx\<close>\<close>
  "calculateSimulationWithTx tx inp =
     (case findUnique scheme_id (loanScheme_rows tx) (schemeId inp) of
        None \<Rightarrow> Inl (SchemeNotFound (schemeId inp))
      | Some sch \<Rightarrow>
          if \<not> scheme_is_active sch then Inl (SchemeNotActive (scheme_name sch))
          else
            let allowedTenors = tenor_options sch in
            if tenorMonths inp \<notin> set allowedTenors
            then Inl (TenorNotAvailable (tenorMonths inp) allowedTenors)
            else
              let priceDecimal = price inp;
                  dpDecimal = dp inp;
                  minDpPercent = min_dp_percent sch;
                  minDpAmount = dec_div (dec_mul priceDecimal minDpPercent) 100
              in
              if dec_lt dpDecimal minDpAmount
              then Inl (DpBelowMinimum minDpPercent minDpAmount dpDecimal)
              else
                let principal_v = dec_minus priceDecimal dpDecimal;
                    interestRate_v = interest_rate sch;
                    interestAmount_v =
                      dec_mul (dec_div (dec_mul principal_v interestRate_v) 100)
                        (of_int (tenorMonths inp));
                    totalLoan_v = dec_plus principal_v interestAmount_v
                in
                if tenorMonths inp = 0 then Inl NonFiniteAmount
                else
                  let monthlyInstallment_v =
                        toDecimalPlaces_ceil (dec_div totalLoan_v (of_int (tenorMonths inp)))
                  in Inr \<lparr> display =
                             \<lparr> sim_price = toFixed 2 priceDecimal,
                               sim_dp = toFixed 2 dpDecimal,
                               principal = toFixed 2 principal_v,
                               interestRate = toFixed 2 interestRate_v,
                               interestAmount = toFixed 2 interestAmount_v,
                               totalLoan = toFixed 2 totalLoan_v,
                               monthlyInstallment = toFixed 2 monthlyInstallment_v,
                               sim_tenorMonths = tenorMonths inp \<rparr>,
                           raw =
                             \<lparr> sim_price = priceDecimal,
                               sim_dp = dpDecimal,
                               principal = principal_v,
                               interestRate = interestRate_v,
                               interestAmount = interestAmount_v,
                               totalLoan = totalLoan_v,
                               monthlyInstallment = monthlyInstallment_v,
                               sim_tenorMonths = tenorMonths inp \<rparr>,
                           scheme = sch \<rparr>)"

record CreateTransactionInput = SimulationInput +
  productId :: int
  customerId :: int
  dueDateDay :: int

record ProductSummary =
  summary_id :: int
  summary_name :: string
  summary_sku :: string
  remainingStock :: int

record CreateTransactionResult =
  res_transaction :: Transaction
  res_contract :: CreditContract
  res_installments :: "Installment list"
  res_product :: ProductSummary
  res_simulation :: SimulationFigures

definition installmentDueDate :: "js_date \<Rightarrow> int \<Rightarrow> int \<Rightarrow> js_date" where
  \<comment> \<open>The four statements that compute \<^verbatim>\<open>dueDate\<close> in the loop body.\<close>
  "installmentDueDate startDate i dueDateDay_v =
     (let dueDate = startDate;
          dueDate = setMonth dueDate (getMonth dueDate + i);
          dueDate = setDate dueDate dueDateDay_v;
          dueDate = setHours0 dueDate
      in dueDate)"

function installment_loop ::
  "int \<Rightarrow> int \<Rightarrow> int \<Rightarrow> js_date \<Rightarrow> int \<Rightarrow> decimal \<Rightarrow> db \<Rightarrow> Installment list
     \<Rightarrow> db \<times> Installment list" where
  \<comment> \<open>\<^verbatim>\<open>for (let i = 1; i <= tenorMonths; i++) { ... }\<close>, entered with \<open>i = 1\<close>\<close>
  "installment_loop i tenorMonths_v contractId startDate dueDateDay_v amount tx installments =
     (if i \<le> tenorMonths_v then
        let installment =
              \<lparr> inst_id = next_id (map inst_id (installment_rows tx)),
                contract_id = contractId,
                installment_nth = i,
                due_date = installmentDueDate startDate i dueDateDay_v,
                amount_due = amount,
                amount_paid = 0,
                penalty_paid = 0,
                penalty_accrued = 0,
                status = UNPAID,
                paid_at = None \<rparr>
        in installment_loop (i + 1) tenorMonths_v contractId startDate dueDateDay_v amount
             (tx \<lparr> installment_rows := installment_rows tx @ [installment] \<rparr>)
             (installments @ [installment])
      else (tx, installments))"
  by pat_completeness auto
termination
  by (relation "measure (\<lambda>(i, n, _). nat (n + 1 - i))") auto

declare installment_loop.simps [simp del]

text \<open>
  The callback handed to \<^verbatim>\<open>prisma.$transaction\<close> in \<^verbatim>\<open>createTransaction\<close>. The clock
  is read twice, for the contract's \<^verbatim>\<open>start_date\<close> and for the \<^verbatim>\<open>startDate\<close> of the
  schedule; the two readings are the first two arguments.
\<close>

definition createTransaction_tx ::
  "js_date \<Rightarrow> js_date \<Rightarrow> CreateTransactionInput \<Rightarrow> db \<Rightarrow> error + db \<times> CreateTransactionResult"
  where
  "createTransaction_tx now1 now2 inp tx =
     (case findUnique product_id (product_rows tx) (productId inp) of
        None \<Rightarrow> Inl (ProductNotFound (productId inp))
      | Some product \<Rightarrow>
          if \<not> product_is_active product then Inl (ProductNotActive (product_name product))
          else if stock_qty product \<le> 0 then Inl (ProductOutOfStock (product_name product))
          else
            (case findUnique customer_id (customer_rows tx) (customerId inp) of
               None \<Rightarrow> Inl (CustomerNotFound (customerId inp))
             | Some customer \<Rightarrow>
                 (case calculateSimulationWithTx tx
                         \<lparr> price = price inp, dp = dp inp, schemeId = schemeId inp,
                           tenorMonths = tenorMonths inp \<rparr> of
                    Inl e \<Rightarrow> Inl e
                  | Inr simulation \<Rightarrow>
                      let transaction =
                            \<lparr> tx_id = next_id (map tx_id (transaction_rows tx)),
                              tx_customerId = customer_id customer,
                              tx_productId = product_id product,
                              customer_name = cust_name customer,
                              customer_phone = phone customer,
                              customer_ktp = nik customer,
                              total_price = price inp,
                              dp_amount = dp inp,
                              scheme_snapshot = scheme simulation,
                              tx_status = TX_ACTIVE \<rparr>;
                          tx1 = tx \<lparr> transaction_rows := transaction_rows tx @ [transaction] \<rparr>;
                          contract =
                            \<lparr> cc_id = next_id (map cc_id (creditContract_rows tx1)),
                              transaction_id = tx_id transaction,
                              principal_amount = toFixed 4 (principal (raw simulation)),
                              total_interest = toFixed 4 (interestAmount (raw simulation)),
                              monthly_installment =
                                toFixed 4 (monthlyInstallment (raw simulation)),
                              start_date = now1,
                              due_date_day = dueDateDay inp,
                              tenor_months = tenorMonths inp \<rparr>;
                          tx2 = tx1 \<lparr> creditContract_rows :=
                                        creditContract_rows tx1 @ [contract] \<rparr>;
                          startDate = now2;
                          (tx3, installments) =
                            installment_loop 1 (tenorMonths inp) (cc_id contract) startDate
                              (dueDateDay inp) (toFixed 4 (monthlyInstallment (raw simulation)))
                              tx2 [];
                          tx4 = tx3 \<lparr> product_rows :=
                                        update_where product_id (productId inp)
                                          (\<lambda>p. p \<lparr> stock_qty := stock_qty p - 1 \<rparr>)
                                          (product_rows tx3) \<rparr>
                      in Inr (tx4,
                              \<lparr> res_transaction = transaction,
                                res_contract = contract,
                                res_installments = installments,
                                res_product =
                                  \<lparr> summary_id = product_id product,
                                    summary_name = product_name product,
                                    summary_sku = sku product,
                                    remainingStock = stock_qty product - 1 \<rparr>,
                                res_simulation = display simulation \<rparr>))))"

definition createTransaction ::
  "js_date \<Rightarrow> js_date \<Rightarrow> db \<Rightarrow> CreateTransactionInput \<Rightarrow> db \<times> (error + CreateTransactionResult)"
  where
  \<comment> \<open>\<^verbatim>\<open>CreditService.createTransaction\<close>: the state after the call and its outcome\<close>
  "createTransaction now1 now2 prisma inp =
     (if dueDateDay inp < 1 \<or> dueDateDay inp > 28 then (prisma, Inl InvalidDueDateDay)
      else prisma_transaction (createTransaction_tx now1 now2 inp) prisma)"

text \<open>
  A run of calls, one after the other on the state the previous one left: the final state
  and the number of calls that succeeded.
\<close>

fun createTransaction_sequence ::
  "db \<Rightarrow> (js_date \<times> js_date \<times> CreateTransactionInput) list \<Rightarrow> db \<times> nat" where
  "createTransaction_sequence prisma [] = (prisma, 0)"
| "createTransaction_sequence prisma ((now1, now2, inp) # calls) =
     (case createTransaction now1 now2 prisma inp of
        (prisma', Inl e) \<Rightarrow> createTransaction_sequence prisma' calls
      | (prisma', Inr result) \<Rightarrow>
          (case createTransaction_sequence prisma' calls of
             (prisma'', successes) \<Rightarrow> (prisma'', Suc successes)))"

section \<open>HTTP handlers\<close>

text \<open>
  A handler answers with a status code and either the \<^verbatim>\<open>data\<close> (or \<^verbatim>\<open>message\<close>) of a
  success or the \<^verbatim>\<open>error\<close> text of a failure.
\<close>

datatype 'a response = Success nat 'a | Failure nat string

fun http_status :: "'a response \<Rightarrow> nat" where
  "http_status (Success code _) = code"
| "http_status (Failure code _) = code"

subsection \<open>PaymentController.payInstallment\<close>

definition payInstallment_tx :: "js_date \<Rightarrow> int \<Rightarrow> db \<Rightarrow> error + db \<times> unit" where
  \<comment> \<open>The callback handed to \<^verbatim>\<open>prisma.$transaction\<close>. \<open>now\<close> is the clock reading of
      \<^verbatim>\<open>paid_at: new Date()\<close>. The \<^verbatim>\<open>include\<close> of the first query loads the contract,
      its installments and its transaction; a contract or transaction that is absent
      makes the statement that dereferences it throw.\<close>
  "payInstallment_tx now installmentId tx =
     (case findUnique inst_id (installment_rows tx) installmentId of
        None \<Rightarrow> Inl InstallmentNotFound
      | Some installment \<Rightarrow>
          if status installment = PAID then Inl InstallmentAlreadyPaid
          else
            let tx1 = tx \<lparr> installment_rows :=
                            update_where inst_id installmentId
                              (\<lambda>r. r \<lparr> status := PAID,
                                       amount_paid := amount_due installment,
                                       paid_at := Some now \<rparr>)
                              (installment_rows tx) \<rparr>
            in
            (case findUnique cc_id (creditContract_rows tx) (contract_id installment) of
               None \<Rightarrow> Inl LibraryError
             | Some contract \<Rightarrow>
                 let contract_installments =
                       filter (\<lambda>inst. contract_id inst = cc_id contract) (installment_rows tx);
                     allPaid =
                       list_all
                         (\<lambda>inst. if inst_id inst = installmentId then True
                                  else status inst = PAID)
                         contract_installments
                 in
                 if allPaid then
                   (case findUnique tx_id (transaction_rows tx1) (transaction_id contract) of
                      None \<Rightarrow> Inl LibraryError
                    | Some _ \<Rightarrow>
                        Inr (tx1 \<lparr> transaction_rows :=
                                     update_where tx_id (transaction_id contract)
                                       (\<lambda>t. t \<lparr> tx_status := TX_PAID \<rparr>)
                                       (transaction_rows tx1) \<rparr>, ()))
                 else Inr (tx1, ())))"

definition payInstallment ::
  "library \<Rightarrow> js_date \<Rightarrow> db \<Rightarrow> int option \<Rightarrow> db \<times> string response" where
  \<comment> \<open>The last argument is \<^verbatim>\<open>parseInt(req.params.id)\<close>, \<open>None\<close> for NaN.\<close>
  "payInstallment lib now prisma parsed_id =
     (case parsed_id of
        None \<Rightarrow> (prisma, Failure 400 ''Invalid installment ID'')
      | Some installmentId \<Rightarrow>
          (case prisma_transaction (payInstallment_tx now installmentId) prisma of
             (prisma', Inl e) \<Rightarrow> (prisma', Failure 400 (message lib e))
           | (prisma', Inr _) \<Rightarrow> (prisma', Success 200 ''Payment received successfully'')))"

subsection \<open>TransactionController\<close>

text \<open>
  A field of \<^verbatim>\<open>req.body\<close>: absent (\<open>JUndefined\<close>), \<^verbatim>\<open>null\<close>, a boolean, a string or a
  number. The number is a \<open>rat\<close> for an amount and an \<open>int\<close> for a field that the schema
  stores as an integer column (an id, the tenor, the due day).
\<close>

datatype 'n jsval = JUndefined | JNull | JBool bool | JStr string | JNum 'n

fun falsy :: "('n::zero) jsval \<Rightarrow> bool" where
  \<comment> \<open>\<^verbatim>\<open>!v\<close>\<close>
  "falsy JUndefined = True"
| "falsy JNull = True"
| "falsy (JBool b) = (\<not> b)"
| "falsy (JStr s) = (s = [])"
| "falsy (JNum x) = (x = 0)"

fun is_number :: "'n jsval \<Rightarrow> bool" where
  \<comment> \<open>\<^verbatim>\<open>typeof v === 'number'\<close>\<close>
  "is_number (JNum x) = True"
| "is_number _ = False"

fun the_num :: "'n jsval \<Rightarrow> 'n" where
  \<comment> \<open>The number held by a field that \<open>is_number\<close> has accepted.\<close>
  "the_num (JNum x) = x"

fun is_missing :: "'n jsval \<Rightarrow> bool" where
  \<comment> \<open>\<^verbatim>\<open>v === undefined || v === null\<close>\<close>
  "is_missing JUndefined = True"
| "is_missing JNull = True"
| "is_missing _ = False"

record SimulateBody =
  body_price :: "rat jsval"
  body_dp :: "rat jsval"
  body_schemeId :: "int jsval"
  body_tenorMonths :: "int jsval"

record CreateBody = SimulateBody +
  body_productId :: "int jsval"
  body_customerId :: "int jsval"
  body_dueDateDay :: "int jsval"

record SchemeSummary =
  summary_scheme_id :: int
  summary_scheme_name :: string
  summary_interestRate :: decimal
  summary_tenorOptions :: "int list"

record SimulateData =
  data_simulation :: SimulationFigures
  data_scheme :: SchemeSummary

definition simulate :: "library \<Rightarrow> db \<Rightarrow> SimulateBody \<Rightarrow> SimulateData response" where
  "simulate lib prisma body =
     (if falsy (body_price body) \<or> falsy (body_dp body) \<or> falsy (body_schemeId body)
         \<or> falsy (body_tenorMonths body)
      then Failure 400 ''Missing required fields: price, dp, schemeId, tenorMonths''
      else
        (case (body_price body, body_dp body, body_schemeId body, body_tenorMonths body) of
           (JNum price_v, JNum dp_v, JNum schemeId_v, JNum tenorMonths_v) \<Rightarrow>
             if price_v \<le> 0 \<or> dp_v < 0 \<or> schemeId_v \<le> 0 \<or> tenorMonths_v \<le> 0
             then Failure 400 ''Price and tenor must be positive. DP cannot be negative.''
             else if dp_v \<ge> price_v
             then Failure 400 ''DP tidak boleh melebihi atau sama dengan harga''
             else
               (case calculateSimulation prisma
                       \<lparr> price = price_v, dp = dp_v, schemeId = schemeId_v,
                         tenorMonths = tenorMonths_v \<rparr> of
                  Inl e \<Rightarrow> Failure 400 (message lib e)
                | Inr result \<Rightarrow>
                    Success 200
                      \<lparr> data_simulation = display result,
                        data_scheme =
                          \<lparr> summary_scheme_id = scheme_id (scheme result),
                            summary_scheme_name = scheme_name (scheme result),
                            summary_interestRate = interest_rate (scheme result),
                            summary_tenorOptions = tenor_options (scheme result) \<rparr> \<rparr>)
         | _ \<Rightarrow> Failure 400 ''All fields must be numbers''))"

fun startsWith :: "string \<Rightarrow> string \<Rightarrow> bool" where
  "startsWith s [] = True"
| "startsWith [] (c # t) = False"
| "startsWith (a # s) (c # t) = (a = c \<and> startsWith s t)"

fun str_includes :: "string \<Rightarrow> string \<Rightarrow> bool" where
  \<comment> \<open>\<^verbatim>\<open>s.includes(t)\<close>\<close>
  "str_includes [] t = (t = [])"
| "str_includes (a # s) t = (startsWith (a # s) t \<or> str_includes s t)"

definition create_error_status :: "string \<Rightarrow> nat" where
  \<comment> \<open>The \<^verbatim>\<open>catch\<close> block of \<^verbatim>\<open>TransactionController.create\<close>\<close>
  "create_error_status msg =
     (if str_includes msg ''tidak ditemukan'' \<or> str_includes msg ''not found'' then 404
      else if str_includes msg ''habis'' \<or> str_includes msg ''tidak aktif'' then 409
      else 400)"

record CustomerSummary =
  summary_customer_name :: string
  summary_customer_phone :: string

record CreateData =
  data_transactionId :: int
  data_contractId :: int
  data_customer :: CustomerSummary
  data_product :: ProductSummary
  data_financials :: SimulationFigures
  data_installmentCount :: nat
  data_firstDueDate :: "js_date option"
  data_lastDueDate :: "js_date option"

definition create ::
  "library \<Rightarrow> js_date \<Rightarrow> js_date \<Rightarrow> db \<Rightarrow> CreateBody \<Rightarrow> db \<times> CreateData response" where
  "create lib now1 now2 prisma body =
     (let missingFields =
            map fst (filter snd
              [(''productId'', is_missing (body_productId body)),
               (''customerId'', is_missing (body_customerId body)),
               (''price'', is_missing (body_price body)),
               (''dp'', is_missing (body_dp body)),
               (''schemeId'', is_missing (body_schemeId body)),
               (''tenorMonths'', is_missing (body_tenorMonths body)),
               (''dueDateDay'', is_missing (body_dueDateDay body))])
      in
      if length missingFields > 0
      then (prisma, Failure 400 (''Missing required fields: '' @ join missingFields '', ''))
      else
        (case find (\<lambda>(key, is_num). \<not> is_num)
                [(''productId'', is_number (body_productId body)),
                 (''customerId'', is_number (body_customerId body)),
                 (''price'', is_number (body_price body)),
                 (''dp'', is_number (body_dp body)),
                 (''schemeId'', is_number (body_schemeId body)),
                 (''tenorMonths'', is_number (body_tenorMonths body)),
                 (''dueDateDay'', is_number (body_dueDateDay body))] of
           Some (key, _) \<Rightarrow> (prisma, Failure 400 (''Field '' @ key @ '' harus berupa angka''))
         | None \<Rightarrow>
             let productId_v = the_num (body_productId body);
                 customerId_v = the_num (body_customerId body);
                 price_v = the_num (body_price body);
                 dp_v = the_num (body_dp body);
                 schemeId_v = the_num (body_schemeId body);
                 tenorMonths_v = the_num (body_tenorMonths body);
                 dueDateDay_v = the_num (body_dueDateDay body)
             in
             if price_v \<le> 0 then (prisma, Failure 400 ''Harga harus lebih dari 0'')
             else if dp_v < 0 then (prisma, Failure 400 ''DP tidak boleh negatif'')
             else if dp_v \<ge> price_v
             then (prisma, Failure 400 ''DP tidak boleh melebihi atau sama dengan harga'')
             else
               (case createTransaction now1 now2 prisma
                       \<lparr> price = price_v, dp = dp_v, schemeId = schemeId_v,
                         tenorMonths = tenorMonths_v, productId = productId_v,
                         customerId = customerId_v, dueDateDay = dueDateDay_v \<rparr> of
                  (prisma', Inr result) \<Rightarrow>
                    (prisma',
                     Success 201
                       \<lparr> data_transactionId = tx_id (res_transaction result),
                         data_contractId = cc_id (res_contract result),
                         data_customer =
                           \<lparr> summary_customer_name = customer_name (res_transaction result),
                             summary_customer_phone =
                               customer_phone (res_transaction result) \<rparr>,
                         data_product = res_product result,
                         data_financials = res_simulation result,
                         data_installmentCount = length (res_installments result),
                         data_firstDueDate =
                           (case res_installments result of
                              [] \<Rightarrow> None
                            | first # _ \<Rightarrow> Some (due_date first)),
                         data_lastDueDate =
                           (case res_installments result of
                              [] \<Rightarrow> None
                            | _ \<Rightarrow> Some (due_date (last (res_installments result)))) \<rparr>)
                | (prisma', Inl e) \<Rightarrow>
                    (prisma', Failure (create_error_status (message lib e)) (message lib e)))))"

section \<open>Example data\<close>

text \<open>
  A small shop: the regular scheme of the worked example (2 percent a month, 10 percent
  minimum down payment), a scheme without a minimum down payment at 2.5 percent a month,
  and a scheme that has been switched off; three products, one of them sold out and one
  inactive; one customer; no sales yet.
\<close>

definition scheme_reguler :: LoanScheme where
  "scheme_reguler =
     \<lparr> scheme_id = 1, scheme_name = ''Reguler'', interest_rate = 2, min_dp_percent = 10,
       tenor_options = [3, 6, 9, 12], penalty_fee_daily = 5000, scheme_is_active = True \<rparr>"

definition scheme_tanpa_dp :: LoanScheme where
  "scheme_tanpa_dp =
     \<lparr> scheme_id = 2, scheme_name = ''Tanpa DP'', interest_rate = 5 / 2, min_dp_percent = 0,
       tenor_options = [3, 6, 12], penalty_fee_daily = 5000, scheme_is_active = True \<rparr>"

definition scheme_lama :: LoanScheme where
  "scheme_lama =
     \<lparr> scheme_id = 3, scheme_name = ''Lama'', interest_rate = 3, min_dp_percent = 20,
       tenor_options = [6, 12], penalty_fee_daily = 5000, scheme_is_active = False \<rparr>"

definition product_kulkas :: Product where
  "product_kulkas =
     \<lparr> product_id = 1, sku = ''EL-001'', product_name = ''Kulkas'', base_price = 4500000,
       stock_qty = 2, category = ''ELECTRONIC'', sub_category = ''Kulkas'',
       product_is_active = True \<rparr>"

definition product_sofa :: Product where
  "product_sofa =
     \<lparr> product_id = 2, sku = ''FN-001'', product_name = ''Sofa'', base_price = 3000000,
       stock_qty = 0, category = ''FURNITURE'', sub_category = ''Sofa'',
       product_is_active = True \<rparr>"

definition product_motor :: Product where
  "product_motor =
     \<lparr> product_id = 3, sku = ''VH-001'', product_name = ''Motor'', base_price = 18000000,
       stock_qty = 1, category = ''VEHICLE'', sub_category = ''Motor'',
       product_is_active = False \<rparr>"

definition customer_budi :: Customer where
  "customer_budi =
     \<lparr> customer_id = 1, nik = ''3201010101010001'', cust_name = ''Budi'',
       phone = ''081234567890'', address = ''Jl. Raya Amali No. 1'' \<rparr>"

definition example_db :: db where
  "example_db =
     \<lparr> loanScheme_rows = [scheme_reguler, scheme_tanpa_dp, scheme_lama],
       product_rows = [product_kulkas, product_sofa, product_motor],
       customer_rows = [customer_budi],
       transaction_rows = [],
       creditContract_rows = [],
       installment_rows = [] \<rparr>"

definition example_input :: SimulationInput where
  \<comment> \<open>the worked example: price 4,500,000, down payment 500,000, six months\<close>
  "example_input = \<lparr> price = 4500000, dp = 500000, schemeId = 1, tenorMonths = 6 \<rparr>"

definition example_result :: SimulationResult where
  "example_result =
     \<lparr> display =
         \<lparr> sim_price = 4500000, sim_dp = 500000, principal = 4000000, interestRate = 2,
           interestAmount = 480000, totalLoan = 4480000, monthlyInstallment = 746667,
           sim_tenorMonths = 6 \<rparr>,
       raw =
         \<lparr> sim_price = 4500000, sim_dp = 500000, principal = 4000000, interestRate = 2,
           interestAmount = 480000, totalLoan = 4480000, monthlyInstallment = 746667,
           sim_tenorMonths = 6 \<rparr>,
       scheme = scheme_reguler \<rparr>"

definition fraction_input :: SimulationInput where
  \<comment> \<open>a total loan that is not a whole number: 1,200,020 at 2.5 percent for 3 months\<close>
  "fraction_input = \<lparr> price = 1500020, dp = 300000, schemeId = 2, tenorMonths = 3 \<rparr>"

definition fraction_result :: SimulationResult where
  "fraction_result =
     \<lparr> display =
         \<lparr> sim_price = 1500020, sim_dp = 300000, principal = 1200020, interestRate = 5 / 2,
           interestAmount = 180003 / 2, totalLoan = 2580043 / 2, monthlyInstallment = 430008,
           sim_tenorMonths = 3 \<rparr>,
       raw =
         \<lparr> sim_price = 1500020, sim_dp = 300000, principal = 1200020, interestRate = 5 / 2,
           interestAmount = 180003 / 2, totalLoan = 2580043 / 2, monthlyInstallment = 430008,
           sim_tenorMonths = 3 \<rparr>,
       scheme = scheme_tanpa_dp \<rparr>"

definition huge_input :: SimulationInput where
  \<comment> \<open>a price of 22 digits with a down payment of 1\<close>
  "huge_input = \<lparr> price = 10 ^ 21, dp = 1, schemeId = 2, tenorMonths = 3 \<rparr>"

text \<open>
  Sales: a refrigerator on the regular scheme for three months, due on the 5th, entered on
  31 January 2025 at 10:00; the same sale three times over; and the sold-out sofa.
\<close>

definition jan31 :: js_date where
  "jan31 = \<lparr> date_year = 2025, date_month = 0, date_day = 31, date_time = 36000000 \<rparr>"

definition example_sale :: CreateTransactionInput where
  "example_sale =
     \<lparr> price = 4500000, dp = 500000, schemeId = 1, tenorMonths = 3,
       productId = 1, customerId = 1, dueDateDay = 5 \<rparr>"

definition sofa_sale :: CreateTransactionInput where
  "sofa_sale =
     \<lparr> price = 3000000, dp = 300000, schemeId = 1, tenorMonths = 3,
       productId = 2, customerId = 1, dueDateDay = 5 \<rparr>"

definition three_sales :: "(js_date \<times> js_date \<times> CreateTransactionInput) list" where
  "three_sales =
     [(jan31, jan31, example_sale), (jan31, jan31, example_sale), (jan31, jan31, example_sale)]"

text \<open>
  The due date as the specification words it, for comparison with \<open>installmentDueDate\<close>:
  the start date advanced by \<open>i\<close> calendar months, the day of the month then set to the
  due day and the time of day to zero.
\<close>

definition spec_due_date :: "js_date \<Rightarrow> int \<Rightarrow> int \<Rightarrow> js_date" where
  "spec_due_date startDate i dueDateDay_v =
     \<lparr> date_year = date_year startDate + (date_month startDate + i) div 12,
       date_month = (date_month startDate + i) mod 12,
       date_day = dueDateDay_v,
       date_time = 0 \<rparr>"

text \<open>
  A contract under repayment: the first instalment is paid, the second is unpaid and the
  third carries a partial payment of 500,000. \<open>example_library\<close> fixes the two library
  texts for the examples.
\<close>

definition example_library :: library where
  "example_library =
     \<lparr> decimal_toString = (\<lambda>x. show_int \<lfloor>x\<rfloor>), library_error_text = ''Invalid invocation'' \<rparr>"

definition feb5 :: js_date where
  "feb5 = \<lparr> date_year = 2025, date_month = 1, date_day = 5, date_time = 32400000 \<rparr>"

definition sale_transaction :: Transaction where
  "sale_transaction =
     \<lparr> tx_id = 1, tx_customerId = 1, tx_productId = 1, customer_name = ''Budi'',
       customer_phone = ''081234567890'', customer_ktp = ''3201010101010001'',
       total_price = 4500000, dp_amount = 500000, scheme_snapshot = scheme_reguler,
       tx_status = TX_ACTIVE \<rparr>"

definition sale_contract :: CreditContract where
  "sale_contract =
     \<lparr> cc_id = 1, transaction_id = 1, principal_amount = 4000000,
       total_interest = 240000, monthly_installment = 1413334,
       start_date = \<lparr> date_year = 2025, date_month = 0, date_day = 10, date_time = 0 \<rparr>,
       due_date_day = 5, tenor_months = 3 \<rparr>"

definition installment_first :: Installment where
  "installment_first =
     \<lparr> inst_id = 1, contract_id = 1, installment_nth = 1,
       due_date = \<lparr> date_year = 2025, date_month = 1, date_day = 5, date_time = 0 \<rparr>,
       amount_due = 1413334, amount_paid = 1413334, penalty_paid = 0,
       penalty_accrued = 0, status = PAID,
       paid_at = Some \<lparr> date_year = 2025, date_month = 1, date_day = 3, date_time = 0 \<rparr> \<rparr>"

definition installment_second :: Installment where
  "installment_second =
     \<lparr> inst_id = 2, contract_id = 1, installment_nth = 2,
       due_date = \<lparr> date_year = 2025, date_month = 2, date_day = 5, date_time = 0 \<rparr>,
       amount_due = 1413334, amount_paid = 0, penalty_paid = 0,
       penalty_accrued = 0, status = UNPAID, paid_at = None \<rparr>"

definition installment_third :: Installment where
  "installment_third =
     \<lparr> inst_id = 3, contract_id = 1, installment_nth = 3,
       due_date = \<lparr> date_year = 2025, date_month = 3, date_day = 5, date_time = 0 \<rparr>,
       amount_due = 1413334, amount_paid = 500000, penalty_paid = 0,
       penalty_accrued = 0, status = PARTIAL, paid_at = None \<rparr>"

definition paying_db :: db where
  "paying_db =
     \<lparr> loanScheme_rows = [scheme_reguler],
       product_rows = [product_kulkas],
       customer_rows = [customer_budi],
       transaction_rows = [sale_transaction],
       creditContract_rows = [sale_contract],
       installment_rows = [installment_first, installment_second, installment_third] \<rparr>"

text \<open>
  Requests: a sale on the scheme that has been switched off, a sale of the inactive
  motorcycle, and a simulation without a down payment on the scheme that asks for none,
  with the input and the result of the engine for it.
\<close>

definition lama_body :: CreateBody where
  "lama_body =
     \<lparr> body_price = JNum 4500000, body_dp = JNum 900000, body_schemeId = JNum 3,
       body_tenorMonths = JNum 6, body_productId = JNum 1, body_customerId = JNum 1,
       body_dueDateDay = JNum 5 \<rparr>"

definition motor_body :: CreateBody where
  "motor_body =
     \<lparr> body_price = JNum 18000000, body_dp = JNum 2000000, body_schemeId = JNum 1,
       body_tenorMonths = JNum 6, body_productId = JNum 3, body_customerId = JNum 1,
       body_dueDateDay = JNum 5 \<rparr>"

definition zero_dp_body :: SimulateBody where
  "zero_dp_body =
     \<lparr> body_price = JNum 4500000, body_dp = JNum 0, body_schemeId = JNum 2,
       body_tenorMonths = JNum 6 \<rparr>"

definition zero_dp_input :: SimulationInput where
  "zero_dp_input = \<lparr> price = 4500000, dp = 0, schemeId = 2, tenorMonths = 6 \<rparr>"

definition zero_dp_result :: SimulationResult where
  "zero_dp_result =
     \<lparr> display =
         \<lparr> sim_price = 4500000, sim_dp = 0, principal = 4500000, interestRate = 5 / 2,
           interestAmount = 675000, totalLoan = 5175000, monthlyInstallment = 862500,
           sim_tenorMonths = 6 \<rparr>,
       raw =
         \<lparr> sim_price = 4500000, sim_dp = 0, principal = 4500000, interestRate = 5 / 2,
           interestAmount = 675000, totalLoan = 5175000, monthlyInstallment = 862500,
           sim_tenorMonths = 6 \<rparr>,
       scheme = scheme_tanpa_dp \<rparr>"

section \<open>Properties of the decimal arithmetic\<close>

lemma round_half_up_bounds:
  "of_int (round_half_up y) \<le> y + 1 / 2" "y - 1 / 2 \<le> of_int (round_half_up y)"
  unfolding round_half_up_def by (auto; linarith)+

lemma round_half_up_of_int [simp]: "round_half_up (of_int n) = n"
  unfolding round_half_up_def by (auto; linarith)

lemma pow10_nat_le_rat: "10 ^ a \<le> (n::nat) \<Longrightarrow> (10::rat) ^ a \<le> of_nat n"
  by (metis of_nat_le_iff of_nat_numeral of_nat_power)

lemma nat_less_pow10_rat: "(n::nat) < 10 ^ a \<Longrightarrow> of_nat n + 1 \<le> (10::rat) ^ a"
proof -
  assume "n < 10 ^ a"
  then have "n + 1 \<le> 10 ^ a" by simp
  then have "(of_nat (n + 1) :: rat) \<le> of_nat (10 ^ a)" by (simp only: of_nat_le_iff)
  then show ?thesis by simp
qed

lemma scale10_powi: "scale10 x k = x * 10 powi k"
  unfolding scale10_def power_int_def by (simp add: field_simps)

lemma floorlog_pos: "0 < n \<Longrightarrow> 1 \<le> floorlog 10 n"
  using floorlog_eq_zero_iff [of 10 n] by (cases "floorlog 10 n") auto

lemma dec_exponent_ge1:
  assumes "1 \<le> \<bar>x\<bar>"
  shows "10 powi dec_exponent x \<le> \<bar>x\<bar>" "\<bar>x\<bar> < 10 powi (dec_exponent x + 1)"
proof -
  define n where "n = nat \<lfloor>\<bar>x\<bar>\<rfloor>"
  have n1: "0 < n" using assms unfolding n_def by (simp add: pos_int_cases)
  define fl where "fl = floorlog 10 n"
  have b: "10 ^ (fl - 1) \<le> n" "n < 10 ^ fl"
    using floorlog_bounds [of n 10] n1 unfolding fl_def by auto
  have fl1: "1 \<le> fl" using floorlog_pos [OF n1] unfolding fl_def .
  have e: "dec_exponent x = int (fl - 1)"
    using assms fl1 unfolding dec_exponent_def fl_def n_def by simp
  have e': "dec_exponent x + 1 = int fl" using e fl1 by simp
  have nx: "of_nat n \<le> \<bar>x\<bar>" "\<bar>x\<bar> < of_nat n + 1"
    unfolding n_def using assms by (auto simp: of_nat_nat; linarith)+
  have "(10::rat) ^ (fl - 1) \<le> of_nat n" using b(1) by (rule pow10_nat_le_rat)
  also have "\<dots> \<le> \<bar>x\<bar>" by (rule nx(1))
  finally show "10 powi dec_exponent x \<le> \<bar>x\<bar>" unfolding e by simp
  have "\<bar>x\<bar> < of_nat n + 1" by (rule nx(2))
  also have "\<dots> \<le> (10::rat) ^ fl" using b(2) by (rule nat_less_pow10_rat)
  finally show "\<bar>x\<bar> < 10 powi (dec_exponent x + 1)" unfolding e' by simp
qed

lemma dec_exponent_lt1:
  assumes "x \<noteq> 0" "\<bar>x\<bar> < 1"
  shows "10 powi dec_exponent x \<le> \<bar>x\<bar>" "\<bar>x\<bar> < 10 powi (dec_exponent x + 1)"
proof -
  define r where "r = 1 / \<bar>x\<bar>"
  have ax: "0 < \<bar>x\<bar>" using assms by simp
  have r1: "1 < r" unfolding r_def using assms ax by (simp add: field_simps)
  define m where "m = nat (\<lceil>r\<rceil> - 1)"
  have c2: "2 \<le> \<lceil>r\<rceil>" using r1 by linarith
  have m1: "0 < m" unfolding m_def using c2 by simp
  have mr: "of_nat m < r" "r \<le> of_nat m + 1"
    unfolding m_def using c2 by (auto simp: of_nat_nat; linarith)+
  define fl where "fl = floorlog 10 m"
  have b: "10 ^ (fl - 1) \<le> m" "m < 10 ^ fl"
    using floorlog_bounds [of m 10] m1 unfolding fl_def by auto
  have fl1: "1 \<le> fl" using floorlog_pos [OF m1] unfolding fl_def .
  have e: "dec_exponent x = - int fl"
    using assms unfolding dec_exponent_def fl_def m_def r_def by simp
  have e': "dec_exponent x + 1 = - int (fl - 1)" using e fl1 by simp
  have "r \<le> of_nat m + 1" by (rule mr(2))
  also have "\<dots> \<le> (10::rat) ^ fl" using b(2) by (rule nat_less_pow10_rat)
  finally have "1 / \<bar>x\<bar> \<le> 10 ^ fl" unfolding r_def .
  then have "1 / 10 ^ fl \<le> \<bar>x\<bar>" using ax by (simp add: field_simps)
  then show "10 powi dec_exponent x \<le> \<bar>x\<bar>"
    unfolding e by (simp add: power_int_minus field_simps)
  have "(10::rat) ^ (fl - 1) \<le> of_nat m" using b(1) by (rule pow10_nat_le_rat)
  also have "\<dots> < r" by (rule mr(1))
  finally have "(10::rat) ^ (fl - 1) < 1 / \<bar>x\<bar>" unfolding r_def .
  then have "\<bar>x\<bar> < 1 / 10 ^ (fl - 1)" using ax by (simp add: field_simps)
  then show "\<bar>x\<bar> < 10 powi (dec_exponent x + 1)"
    unfolding e' by (simp add: power_int_minus field_simps)
qed

lemma dec_exponent_bounds:
  assumes "x \<noteq> 0"
  shows "10 powi dec_exponent x \<le> \<bar>x\<bar>" "\<bar>x\<bar> < 10 powi (dec_exponent x + 1)"
  using dec_exponent_ge1 [of x] dec_exponent_lt1 [OF assms] by (cases "1 \<le> \<bar>x\<bar>"; simp)+

lemma scaled_bounds:
  assumes nz: "x \<noteq> 0" and k_def: "k = int precision - 1 - dec_exponent x"
  shows "10 powi (int precision - 1) \<le> \<bar>x\<bar> * 10 powi k"
    and "\<bar>x\<bar> * 10 powi k < 10 powi (int precision)"
proof -
  have pos: "(0::rat) < 10 powi k" by (simp add: zero_less_power_int)
  have "(10::rat) powi (int precision - 1) = 10 powi (dec_exponent x + k)"
    unfolding k_def by simp
  also have "\<dots> = 10 powi dec_exponent x * 10 powi k" by (simp add: power_int_add)
  also have "\<dots> \<le> \<bar>x\<bar> * 10 powi k"
    using dec_exponent_bounds(1) [OF nz] pos by (simp add: mult_right_mono)
  finally show "10 powi (int precision - 1) \<le> \<bar>x\<bar> * 10 powi k" .
  have "\<bar>x\<bar> * 10 powi k < 10 powi (dec_exponent x + 1) * 10 powi k"
    using dec_exponent_bounds(2) [OF nz] pos by (simp add: mult_strict_right_mono)
  also have "\<dots> = 10 powi (dec_exponent x + 1 + k)" by (simp add: power_int_add)
  also have "\<dots> = 10 powi (int precision)" unfolding k_def by simp
  finally show "\<bar>x\<bar> * 10 powi k < 10 powi (int precision)" .
qed

lemma scale10_neg: "scale10 y (- k) = y / 10 powi k"
  unfolding scale10_powi power_int_minus by (simp add: divide_inverse)

lemma dec_round_powi:
  "x \<noteq> 0 \<Longrightarrow> dec_round x =
     of_int (round_half_up (x * 10 powi (int precision - 1 - dec_exponent x)))
       / 10 powi (int precision - 1 - dec_exponent x)"
  unfolding dec_round_def Let_def scale10_neg unfolding scale10_powi by simp

lemma precision_pos: "0 < precision" by (simp add: precision_def)

lemma Ints_pos_ge1: "(z::rat) \<in> \<int> \<Longrightarrow> 0 < z \<Longrightarrow> 1 \<le> z"
  by (auto elim!: Ints_cases)

lemma dec_round_ceiling:
  fixes T :: rat and n :: int and d :: nat
  assumes n: "0 < n"
    and TZ: "T * 10 ^ d \<in> \<int>"
    and Tb: "\<bar>T\<bar> * 10 ^ d < 10 ^ (precision - 1)"
  shows "\<lceil>dec_round (T / of_int n)\<rceil> = \<lceil>T / of_int n\<rceil>"
proof (cases "T = 0")
  case True
  then show ?thesis by (simp add: dec_round_def)
next
  case False
  define q where "q = T / of_int n"
  have qn: "q * of_int n = T" unfolding q_def using n by simp
  have q0: "q \<noteq> 0" unfolding q_def using False n by simp
  define k where "k = int precision - 1 - dec_exponent q"
  define S where "S = (10::rat) powi k"
  have Spos: "0 < S" unfolding S_def by (simp add: zero_less_power_int)
  define nd where "nd = (of_int n :: rat) * 10 ^ d"
  have ndpos: "0 < nd" unfolding nd_def using n by simp
  have nd1: "1 \<le> nd"
  proof -
    have "(1::rat) \<le> of_int n" using n by simp
    moreover have "(1::rat) \<le> 10 ^ d" by simp
    ultimately have "(1::rat) * 1 \<le> of_int n * 10 ^ d" by (intro mult_mono) auto
    then show ?thesis unfolding nd_def by simp
  qed
  have dr: "dec_round q = of_int (round_half_up (q * S)) / S"
    unfolding S_def k_def using dec_round_powi [OF q0] .
  \<comment> \<open>the scale exceeds the denominator of the quotient\<close>
  have "\<bar>q\<bar> * of_int n = \<bar>T\<bar>"
    using n unfolding qn [symmetric] by (simp add: abs_mult)
  then have "\<bar>q\<bar> * nd = \<bar>T\<bar> * 10 ^ d"
    unfolding nd_def by (simp flip: mult.assoc)
  also have "\<dots> < 10 ^ (precision - 1)" by (rule Tb)
  also have "\<dots> = 10 powi (int precision - 1)"
    using precision_pos by (simp add: power_int_def nat_diff_distrib')
  also have "\<dots> \<le> \<bar>q\<bar> * S"
    unfolding S_def using scaled_bounds(1) [OF q0 k_def] .
  finally have ndS: "nd < S" using q0 by simp
  \<comment> \<open>so the scale is a positive power of ten, an integer\<close>
  have k0: "0 \<le> k"
  proof (rule ccontr)
    assume "\<not> 0 \<le> k"
    then have "S \<le> 1" unfolding S_def power_int_def
      by (simp add: inverse_eq_divide power_le_one_iff field_simps)
    with ndS nd1 show False by simp
  qed
  define Si where "Si = (10::int) ^ nat k"
  have SSi: "S = of_int Si" unfolding S_def Si_def using k0 by (simp add: power_int_def)
  define c where "c = \<lceil>q\<rceil>"
  have cq: "of_int c - 1 < q" "q \<le> of_int c" unfolding c_def by linarith+
  \<comment> \<open>upper bound\<close>
  have "of_int (round_half_up (q * S)) \<le> q * S + 1 / 2" by (rule round_half_up_bounds(1))
  also have "\<dots> \<le> of_int c * S + 1 / 2" using cq(2) Spos by (simp add: mult_right_mono)
  finally have "(of_int (round_half_up (q * S)) :: rat) \<le> of_int (c * Si) + 1 / 2"
    unfolding SSi by simp
  then have "round_half_up (q * S) \<le> c * Si" by linarith
  then have "(of_int (round_half_up (q * S)) :: rat) \<le> of_int (c * Si)" by (simp only: of_int_le_iff)
  then have up: "dec_round q \<le> of_int c"
    unfolding dr using Spos SSi by (simp add: field_simps)
  \<comment> \<open>lower bound\<close>
  define g where "g = q - (of_int c - 1)"
  have gpos: "0 < g" unfolding g_def using cq(1) by simp
  have "g * nd = T * 10 ^ d - (of_int c - 1) * of_int n * 10 ^ d"
    unfolding g_def nd_def using qn by (simp add: algebra_simps)
  moreover have "(of_int c - 1) * of_int n * 10 ^ d \<in> (\<int> :: rat set)" by simp
  ultimately have "g * nd \<in> \<int>" using TZ by simp
  moreover have "0 < g * nd" using gpos ndpos by simp
  ultimately have "1 \<le> g * nd" by (rule Ints_pos_ge1)
  then have "1 * S \<le> (g * nd) * S" using Spos by (intro mult_right_mono) auto
  with ndS have "nd * 1 < nd * (g * S)" by (simp add: mult_ac)
  then have gS: "1 < g * S" using ndpos by (simp only: mult_less_cancel_left_pos)
  have "q * S = (of_int c - 1) * S + g * S" unfolding g_def by (simp add: algebra_simps)
  with gS have "(of_int c - 1) * S + 1 < q * S" by simp
  moreover have "q * S - 1 / 2 \<le> of_int (round_half_up (q * S))"
    by (rule round_half_up_bounds(2))
  ultimately have "(of_int c - 1) * S < of_int (round_half_up (q * S))" by simp
  then have lo: "of_int c - 1 < dec_round q"
    unfolding dr using Spos by (simp add: field_simps)
  have "\<lceil>dec_round q\<rceil> = c" using lo up by (intro ceiling_unique) auto
  then show ?thesis unfolding c_def q_def .
qed

lemma dec_exponent_unique:
  assumes "x \<noteq> 0" "10 powi a \<le> \<bar>x\<bar>" "\<bar>x\<bar> < 10 powi (a + 1)"
  shows "dec_exponent x = a"
proof -
  note b = dec_exponent_bounds [OF assms(1)]
  have "\<not> a + 1 \<le> dec_exponent x"
  proof
    assume "a + 1 \<le> dec_exponent x"
    then have "(10::rat) powi (a + 1) \<le> 10 powi dec_exponent x"
      by (intro power_int_increasing) auto
    with b(1) assms(3) show False by simp
  qed
  moreover have "\<not> dec_exponent x + 1 \<le> a"
  proof
    assume "dec_exponent x + 1 \<le> a"
    then have "(10::rat) powi (dec_exponent x + 1) \<le> 10 powi a"
      by (intro power_int_increasing) auto
    with b(2) assms(2) show False by simp
  qed
  ultimately show ?thesis by simp
qed

lemma dec_exponent_shift:
  assumes "x \<noteq> 0"
  shows "dec_exponent (x * 10 powi j) = dec_exponent x + j"
proof (rule dec_exponent_unique)
  have pos: "(0::rat) < 10 powi j" by (simp add: zero_less_power_int)
  note b = dec_exponent_bounds [OF assms]
  show "x * 10 powi j \<noteq> 0" using assms by simp
  have "(10::rat) powi (dec_exponent x + j) = 10 powi dec_exponent x * 10 powi j"
    by (simp add: power_int_add)
  also have "\<dots> \<le> \<bar>x\<bar> * 10 powi j" using b(1) pos by (simp add: mult_right_mono)
  finally show "10 powi (dec_exponent x + j) \<le> \<bar>x * 10 powi j\<bar>"
    using pos by (simp add: abs_mult)
  have "\<bar>x\<bar> * 10 powi j < 10 powi (dec_exponent x + 1) * 10 powi j"
    using b(2) pos by (simp add: mult_strict_right_mono)
  also have "\<dots> = 10 powi (dec_exponent x + j + 1)" by (simp add: power_int_add)
  finally show "\<bar>x * 10 powi j\<bar> < 10 powi (dec_exponent x + j + 1)"
    using pos by (simp add: abs_mult)
qed

lemma dec_round_shift: "dec_round (x * 10 powi j) = dec_round x * 10 powi j"
proof (cases "x = 0")
  case True
  then show ?thesis by (simp add: dec_round_def)
next
  case False
  then have nz: "x * 10 powi j \<noteq> 0" by simp
  define k where "k = int precision - 1 - dec_exponent x"
  have k': "int precision - 1 - dec_exponent (x * 10 powi j) = k - j"
    unfolding k_def dec_exponent_shift [OF False] by simp
  have m: "(10::rat) powi j * 10 powi (k - j) = 10 powi k"
    by (simp flip: power_int_add)
  have "dec_round (x * 10 powi j) =
      of_int (round_half_up (x * (10 powi j * 10 powi (k - j)))) / 10 powi (k - j)"
    unfolding dec_round_powi [OF nz] k' by (simp add: mult.assoc)
  also have "\<dots> = of_int (round_half_up (x * 10 powi k)) / 10 powi (k - j)"
    unfolding m ..
  also have "\<dots> = of_int (round_half_up (x * 10 powi k)) / 10 powi k * 10 powi j"
    by (simp add: power_int_diff)
  finally show ?thesis unfolding dec_round_powi [OF False] k_def .
qed

lemma dec_round_div_100: "dec_round (x / 100) = dec_round x / 100"
proof -
  have "(10::rat) powi (- 2) = 1 / 100" by (simp add: power_int_minus)
  then show ?thesis using dec_round_shift [of x "- 2"] by simp
qed

lemma dec_round_exact:
  fixes x :: rat and d :: nat
  assumes xZ: "x * 10 ^ d \<in> \<int>" and xb: "\<bar>x\<bar> * 10 ^ d < 10 ^ precision"
  shows "dec_round x = x"
proof (cases "x = 0")
  case True
  then show ?thesis by (simp add: dec_round_def)
next
  case False
  define k where "k = int precision - 1 - dec_exponent x"
  define S where "S = (10::rat) powi k"
  have Spos: "0 < S" unfolding S_def by (simp add: zero_less_power_int)
  have ax: "0 < \<bar>x\<bar>" using False by simp
  \<comment> \<open>the scale is at least \<open>10\<^sup>d\<close>\<close>
  have "\<bar>x\<bar> * 10 powi (int d) < 10 powi (int precision)" using xb by simp
  also have "\<dots> = 10 * 10 powi (int precision - 1)"
    by (simp add: power_int_diff)
  also have "\<dots> \<le> 10 * (\<bar>x\<bar> * S)"
    unfolding S_def using scaled_bounds(1) [OF False k_def] by simp
  also have "\<dots> = \<bar>x\<bar> * 10 powi (k + 1)" unfolding S_def by (simp add: power_int_add)
  finally have "(10::rat) powi (int d) < 10 powi (k + 1)" using ax by simp
  then have "\<not> k + 1 \<le> int d"
    using power_int_increasing [of "k + 1" "int d" "10::rat"] by auto
  then have dk: "int d \<le> k" by simp
  then have SS: "S = 10 ^ d * of_int (10 ^ nat (k - int d))"
    unfolding S_def by (simp add: power_int_def flip: power_add nat_add_distrib)
  have "(x * 10 ^ d) * of_int (10 ^ nat (k - int d)) \<in> \<int>"
    by (rule Ints_mult [OF xZ Ints_of_int])
  then have "x * S \<in> \<int>" unfolding SS by (simp only: mult.assoc)
  then obtain z where z: "x * S = of_int z" by (auto elim: Ints_cases)
  have "dec_round x = of_int (round_half_up (x * S)) / S"
    unfolding S_def k_def using dec_round_powi [OF False] .
  also have "\<dots> = x * S / S" unfolding z by simp
  also have "\<dots> = x" using Spos by simp
  finally show ?thesis .
qed

lemma dec_round_ceiling_nz:
  fixes T :: rat and n :: int and d :: nat
  assumes n: "n \<noteq> 0"
    and TZ: "T * 10 ^ d \<in> \<int>"
    and Tb: "\<bar>T\<bar> * 10 ^ d < 10 ^ (precision - 1)"
  shows "\<lceil>dec_round (T / of_int n)\<rceil> = \<lceil>T / of_int n\<rceil>"
proof (cases "0 < n")
  case True
  then show ?thesis using TZ Tb by (rule dec_round_ceiling)
next
  case False
  then have n': "0 < - n" using n by simp
  have "(- T) * 10 ^ d \<in> \<int>" using TZ by simp
  moreover have "\<bar>- T\<bar> * 10 ^ d < 10 ^ (precision - 1)" using Tb by simp
  ultimately have "\<lceil>dec_round ((- T) / of_int (- n))\<rceil> = \<lceil>(- T) / of_int (- n)\<rceil>"
    using n' by (intro dec_round_ceiling)
  then show ?thesis by simp
qed

section \<open>Evaluation on concrete values\<close>

lemma floor_rat_numeral_div [simp]:
  "\<lfloor>(numeral a :: rat) / numeral b\<rfloor> = numeral a div numeral b"
  using floor_divide_of_int_eq [of "numeral a" "numeral b", where ?'a = rat] by simp

lemma ceiling_rat_numeral_div [simp]:
  "\<lceil>(numeral a :: rat) / numeral b\<rceil> = - (- numeral a div numeral b)"
  using floor_divide_of_int_eq [of "- numeral a" "numeral b", where ?'a = rat]
  by (simp add: ceiling_def)

lemmas dec_eval =
  dec_plus_def dec_minus_def dec_mul_def dec_div_def dec_lt_def toDecimalPlaces_ceil_def
  toFixed_def dec_round_def dec_exponent_def compute_floorlog scale10_def round_half_up_def
  precision_def

lemmas example_defs =
  example_db_def scheme_reguler_def scheme_tanpa_dp_def scheme_lama_def product_kulkas_def
  product_sofa_def product_motor_def customer_budi_def

section \<open>The simulation engine\<close>

lemma calculateSimulationWithTx_eq: "calculateSimulationWithTx = calculateSimulation"
  unfolding calculateSimulationWithTx_def calculateSimulation_def ..

lemma calculateSimulation_InrD:
  assumes "calculateSimulation prisma inp = Inr res"
  shows "findUnique scheme_id (loanScheme_rows prisma) (schemeId inp) = Some (scheme res)"
    and "scheme_is_active (scheme res)"
    and "tenorMonths inp \<in> set (tenor_options (scheme res))"
    and "tenorMonths inp \<noteq> 0"
    and "\<not> dec_lt (dp inp) (dec_div (dec_mul (price inp) (min_dp_percent (scheme res))) 100)"
    and "principal (raw res) = dec_minus (price inp) (dp inp)"
    and "interestAmount (raw res) =
           dec_mul (dec_div (dec_mul (principal (raw res)) (interest_rate (scheme res))) 100)
             (of_int (tenorMonths inp))"
    and "totalLoan (raw res) = dec_plus (principal (raw res)) (interestAmount (raw res))"
    and "monthlyInstallment (raw res) =
           toDecimalPlaces_ceil (dec_div (totalLoan (raw res)) (of_int (tenorMonths inp)))"
  using assms unfolding calculateSimulation_def Let_def
  by (auto split: option.splits if_splits)

lemma calculateSimulation_Inr:
  assumes "findUnique scheme_id (loanScheme_rows prisma) (schemeId inp) = Some sch"
    and "scheme_is_active sch"
    and "tenorMonths inp \<in> set (tenor_options sch)"
    and "\<not> dec_lt (dp inp) (dec_div (dec_mul (price inp) (min_dp_percent sch)) 100)"
    and "tenorMonths inp \<noteq> 0"
    and "P = dec_minus (price inp) (dp inp)"
    and "I = dec_mul (dec_div (dec_mul P (interest_rate sch)) 100) (of_int (tenorMonths inp))"
    and "T = dec_plus P I"
    and "M = toDecimalPlaces_ceil (dec_div T (of_int (tenorMonths inp)))"
  shows "calculateSimulation prisma inp =
     Inr \<lparr> display =
             \<lparr> sim_price = toFixed 2 (price inp), sim_dp = toFixed 2 (dp inp),
               principal = toFixed 2 P, interestRate = toFixed 2 (interest_rate sch),
               interestAmount = toFixed 2 I, totalLoan = toFixed 2 T,
               monthlyInstallment = toFixed 2 M, sim_tenorMonths = tenorMonths inp \<rparr>,
           raw =
             \<lparr> sim_price = price inp, sim_dp = dp inp, principal = P,
               interestRate = interest_rate sch, interestAmount = I, totalLoan = T,
               monthlyInstallment = M, sim_tenorMonths = tenorMonths inp \<rparr>,
           scheme = sch \<rparr>"
  using assms unfolding calculateSimulation_def Let_def by simp

lemma example_simulation: "calculateSimulation example_db example_input = Inr example_result"
proof -
  have s: "findUnique scheme_id (loanScheme_rows example_db) (schemeId example_input)
             = Some scheme_reguler"
    by (simp add: findUnique_def example_defs example_input_def)
  have P: "dec_minus (price example_input) (dp example_input) = 4000000"
    by (simp add: example_input_def dec_eval)
  have I: "dec_mul (dec_div (dec_mul 4000000 (interest_rate scheme_reguler)) 100)
             (of_int (tenorMonths example_input)) = 480000"
    by (simp add: example_input_def scheme_reguler_def dec_eval)
  have T: "dec_plus 4000000 480000 = 4480000" by (simp add: dec_eval)
  have M: "toDecimalPlaces_ceil (dec_div 4480000 (of_int (tenorMonths example_input))) = 746667"
    by (simp add: example_input_def dec_eval)
  have mn: "\<not> dec_lt (dp example_input)
              (dec_div (dec_mul (price example_input) (min_dp_percent scheme_reguler)) 100)"
    by (simp add: example_input_def scheme_reguler_def dec_eval)
  have f: "toFixed 2 4500000 = 4500000" "toFixed 2 500000 = 500000"
    "toFixed 2 4000000 = 4000000" "toFixed 2 2 = 2" "toFixed 2 480000 = 480000"
    "toFixed 2 4480000 = 4480000" "toFixed 2 746667 = 746667"
    by (simp_all add: dec_eval)
  have "calculateSimulation example_db example_input = Inr \<lparr> display =
             \<lparr> sim_price = toFixed 2 (price example_input), sim_dp = toFixed 2 (dp example_input),
               principal = toFixed 2 4000000, interestRate = toFixed 2 (interest_rate scheme_reguler),
               interestAmount = toFixed 2 480000, totalLoan = toFixed 2 4480000,
               monthlyInstallment = toFixed 2 746667, sim_tenorMonths = tenorMonths example_input \<rparr>,
           raw =
             \<lparr> sim_price = price example_input, sim_dp = dp example_input, principal = 4000000,
               interestRate = interest_rate scheme_reguler, interestAmount = 480000, totalLoan = 4480000,
               monthlyInstallment = 746667, sim_tenorMonths = tenorMonths example_input \<rparr>,
           scheme = scheme_reguler \<rparr>"
    by (rule calculateSimulation_Inr [OF s _ _ mn _ P [symmetric] I [symmetric] T [symmetric] M [symmetric]])
       (simp_all add: scheme_reguler_def example_input_def)
  then show ?thesis
    unfolding example_result_def by (simp add: f example_input_def scheme_reguler_def)
qed

lemma fraction_simulation: "calculateSimulation example_db fraction_input = Inr fraction_result"
proof -
  have s: "findUnique scheme_id (loanScheme_rows example_db) (schemeId fraction_input)
             = Some scheme_tanpa_dp"
    by (simp add: findUnique_def example_defs fraction_input_def)
  have P: "dec_minus (price fraction_input) (dp fraction_input) = 1200020"
    by (simp add: fraction_input_def dec_eval)
  have I: "dec_mul (dec_div (dec_mul 1200020 (interest_rate scheme_tanpa_dp)) 100)
             (of_int (tenorMonths fraction_input)) = 180003 / 2"
    by (simp add: fraction_input_def scheme_tanpa_dp_def dec_eval)
  have T: "dec_plus 1200020 (180003 / 2) = 2580043 / 2" by (simp add: dec_eval)
  have M: "toDecimalPlaces_ceil (dec_div (2580043 / 2) (of_int (tenorMonths fraction_input)))
             = 430008"
    by (simp add: fraction_input_def dec_eval)
  have mn: "\<not> dec_lt (dp fraction_input)
              (dec_div (dec_mul (price fraction_input) (min_dp_percent scheme_tanpa_dp)) 100)"
    by (simp add: fraction_input_def scheme_tanpa_dp_def dec_eval)
  have f: "toFixed 2 1500020 = 1500020" "toFixed 2 300000 = 300000"
    "toFixed 2 1200020 = 1200020" "toFixed 2 (5 / 2) = 5 / 2"
    "toFixed 2 (180003 / 2) = 180003 / 2" "toFixed 2 (2580043 / 2) = 2580043 / 2"
    "toFixed 2 430008 = 430008"
    by (simp_all add: dec_eval)
  note r = calculateSimulation_Inr [OF s _ _ mn _ P [symmetric] I [symmetric] T [symmetric]
      M [symmetric]]
  have "scheme_is_active scheme_tanpa_dp"
    "tenorMonths fraction_input \<in> set (tenor_options scheme_tanpa_dp)"
    "tenorMonths fraction_input \<noteq> 0"
    by (simp_all add: scheme_tanpa_dp_def fraction_input_def)
  from r [OF this] show ?thesis
    unfolding fraction_result_def by (simp add: f fraction_input_def scheme_tanpa_dp_def)
qed


lemma toFixed_of_int [simp]: "toFixed k (of_int z) = of_int z"
proof -
  have "(of_int z :: rat) * 10 ^ k = of_int (z * 10 ^ k)" by simp
  then have "round_half_up (of_int z * 10 ^ k) = z * 10 ^ k"
    by (simp only: round_half_up_of_int)
  then show ?thesis unfolding toFixed_def by simp
qed

lemma ceiling_times_bounds:
  fixes q :: rat and n :: int
  assumes "0 < n"
  shows "q * of_int n \<le> of_int \<lceil>q\<rceil> * of_int n"
    and "of_int \<lceil>q\<rceil> * of_int n - q * of_int n < of_int n"
    and "of_int \<lceil>q\<rceil> * of_int n = q * of_int n \<longleftrightarrow> q \<in> \<int>"
    and "q * of_int n \<in> \<int> \<Longrightarrow> of_int \<lceil>q\<rceil> * of_int n - q * of_int n \<le> of_int n - 1"
proof -
  define c where "c = \<lceil>q\<rceil>"
  have np: "(0::rat) < of_int n" using assms by simp
  have cq: "q \<le> of_int c" "of_int c < q + 1" unfolding c_def by linarith+
  show "q * of_int n \<le> of_int \<lceil>q\<rceil> * of_int n"
    unfolding c_def [symmetric] using cq(1) np by (simp add: mult_right_mono)
  have "(of_int c - q) * of_int n < 1 * of_int n"
    using cq(2) np by (intro mult_strict_right_mono) auto
  then have 2: "of_int c * of_int n - q * of_int n < of_int n"
    by (simp only: left_diff_distrib mult_1)
  then show "of_int \<lceil>q\<rceil> * of_int n - q * of_int n < of_int n"
    unfolding c_def .
  show "of_int \<lceil>q\<rceil> * of_int n = q * of_int n \<longleftrightarrow> q \<in> \<int>"
  proof
    assume "of_int \<lceil>q\<rceil> * of_int n = q * of_int n"
    with np have "of_int \<lceil>q\<rceil> = q" by (metis mult_cancel_right less_irrefl)
    then show "q \<in> \<int>" by (metis Ints_of_int)
  next
    assume "q \<in> \<int>"
    then obtain k where "q = of_int k" by (auto elim: Ints_cases)
    then have "of_int \<lceil>q\<rceil> = q" by simp
    then show "of_int \<lceil>q\<rceil> * of_int n = q * of_int n" by simp
  qed
  assume "q * of_int n \<in> \<int>"
  then obtain z where z: "q * of_int n = of_int z" by (auto elim: Ints_cases)
  have "(of_int (c * n - z) :: rat) < of_int n" using 2 unfolding z by simp
  then have "c * n - z < n" by (simp only: of_int_less_iff)
  then have "c * n - z \<le> n - 1" by simp
  then have "(of_int (c * n - z) :: rat) \<le> of_int (n - 1)" by (simp only: of_int_le_iff)
  then show "of_int \<lceil>q\<rceil> * of_int n - q * of_int n \<le> of_int n - 1"
    unfolding c_def [symmetric] z by simp
qed

lemma ceiling_mult_bounds:
  fixes T :: rat and n :: int
  assumes "0 < n"
  shows "T \<le> of_int \<lceil>T / of_int n\<rceil> * of_int n"
    and "of_int \<lceil>T / of_int n\<rceil> * of_int n - T < of_int n"
    and "of_int \<lceil>T / of_int n\<rceil> * of_int n = T \<longleftrightarrow> T / of_int n \<in> \<int>"
    and "T \<in> \<int> \<Longrightarrow> of_int \<lceil>T / of_int n\<rceil> * of_int n - T \<le> of_int n - 1"
proof -
  have T: "T / of_int n * of_int n = T" using assms by simp
  note b = ceiling_times_bounds [OF assms, of "T / of_int n", unfolded T]
  show "T \<le> of_int \<lceil>T / of_int n\<rceil> * of_int n" by (rule b(1))
  show "of_int \<lceil>T / of_int n\<rceil> * of_int n - T < of_int n" by (rule b(2))
  show "of_int \<lceil>T / of_int n\<rceil> * of_int n = T \<longleftrightarrow> T / of_int n \<in> \<int>" by (rule b(3))
  show "T \<in> \<int> \<Longrightarrow> of_int \<lceil>T / of_int n\<rceil> * of_int n - T \<le> of_int n - 1" by (rule b(4))
qed

text \<open>
  Claim C3, as amended. For every simulation that passes validation with a positive tenor
  and whose total loan has at most 19 digits in all (it is a multiple of \<open>10\<^sup>-\<^sup>d\<close> and
  its absolute value is below \<open>10\<^sup>1\<^sup>9\<^sup>-\<^sup>d\<close>), the instalments add up to at least the
  total loan, with equality exactly when the tenor divides the total loan evenly; the
  excess is strictly less than the tenor, and at most the tenor minus one when the total
  loan is a whole number.
\<close>
theorem rounding_gap:
  fixes d :: nat
  assumes ok: "calculateSimulation prisma inp = Inr res"
    and pos: "0 < tenorMonths inp"
    and digits: "totalLoan (raw res) * 10 ^ d \<in> \<int>" "\<bar>totalLoan (raw res)\<bar> * 10 ^ d < 10 ^ 19"
  shows "totalLoan (raw res) \<le> monthlyInstallment (raw res) * of_int (tenorMonths inp)
       \<and> (monthlyInstallment (raw res) * of_int (tenorMonths inp) = totalLoan (raw res)
            \<longleftrightarrow> totalLoan (raw res) / of_int (tenorMonths inp) \<in> \<int>)
       \<and> monthlyInstallment (raw res) * of_int (tenorMonths inp) - totalLoan (raw res)
            < of_int (tenorMonths inp)
       \<and> (totalLoan (raw res) \<in> \<int> \<longrightarrow>
            monthlyInstallment (raw res) * of_int (tenorMonths inp) - totalLoan (raw res)
              \<le> of_int (tenorMonths inp) - 1)"
proof -
  have b: "\<bar>totalLoan (raw res)\<bar> * 10 ^ d < 10 ^ (precision - 1)"
    using digits(2) by (simp add: precision_def)
  have m: "monthlyInstallment (raw res)
             = of_int \<lceil>totalLoan (raw res) / of_int (tenorMonths inp)\<rceil>"
    unfolding calculateSimulation_InrD(9) [OF ok] toDecimalPlaces_ceil_def dec_div_def
    using dec_round_ceiling [OF pos digits(1) b] by simp
  show ?thesis unfolding m using ceiling_mult_bounds [OF pos, of "totalLoan (raw res)"] by blast
qed

text \<open>
  The worked example satisfies the hypotheses of \<open>rounding_gap\<close> with \<open>d = 0\<close>: six
  instalments of 746,667 exceed the total loan of 4,480,000 by 2.
\<close>

theorem rounding_gap_witness:
  "calculateSimulation example_db example_input = Inr example_result
   \<and> totalLoan (raw example_result) = 4480000
   \<and> monthlyInstallment (raw example_result) * of_int (tenorMonths example_input) = 4480002
   \<and> (4480002 :: rat) - 4480000 \<le> of_int (tenorMonths example_input) - 1"
  using rounding_gap [OF example_simulation, of 0] example_simulation
  by (simp add: example_result_def example_input_def)

text \<open>
  Claim C3 as stated fails: 1,200,020 financed at 2.5 percent a month for 3 months gives a
  total loan of 1,290,021.5 and three instalments of 430,008, an excess of 2.5 currency
  units, more than the tenor minus one.
\<close>

theorem rounding_gap_counterexample:
  "calculateSimulation example_db fraction_input = Inr fraction_result
   \<and> monthlyInstallment (raw fraction_result) * of_int (tenorMonths fraction_input)
        - totalLoan (raw fraction_result) = 5 / 2
   \<and> \<not> (5 / 2 \<le> (of_int (tenorMonths fraction_input) - 1 :: rat))"
  using fraction_simulation
  by (simp add: fraction_result_def fraction_input_def)

lemma huge_simulation_principal:
  "map_sum id (\<lambda>r. principal (raw r)) (calculateSimulation example_db huge_input) = Inr (10 ^ 21)"
proof -
  have s: "findUnique scheme_id (loanScheme_rows example_db) (schemeId huge_input)
             = Some scheme_tanpa_dp"
    by (simp add: findUnique_def example_defs huge_input_def)
  have P: "dec_minus (price huge_input) (dp huge_input) = 10 ^ 21"
    by (simp add: huge_input_def dec_eval)
  have mn: "\<not> dec_lt (dp huge_input)
              (dec_div (dec_mul (price huge_input) (min_dp_percent scheme_tanpa_dp)) 100)"
    by (simp add: huge_input_def scheme_tanpa_dp_def dec_eval)
  note r = calculateSimulation_Inr [OF s _ _ mn _ P [symmetric] refl refl refl]
  have "scheme_is_active scheme_tanpa_dp"
    "tenorMonths huge_input \<in> set (tenor_options scheme_tanpa_dp)"
    "tenorMonths huge_input \<noteq> 0"
    by (simp_all add: scheme_tanpa_dp_def huge_input_def)
  from r [OF this] show ?thesis by simp
qed

text \<open>
  Claim C1 as stated fails for a price of 22 digits: with price \<open>10\<^sup>2\<^sup>1\<close> and a down
  payment of 1 the difference has 21 significant digits, and the engine's principal is
  \<open>10\<^sup>2\<^sup>1\<close>, not price minus down payment.
\<close>
theorem simulation_formula_counterexample:
  "map_sum id (\<lambda>r. principal (raw r)) (calculateSimulation example_db huge_input) = Inr (10 ^ 21)
   \<and> price huge_input - dp huge_input = 10 ^ 21 - 1
   \<and> (10 ^ 21 :: rat) \<noteq> 10 ^ 21 - 1"
  using huge_simulation_principal by (simp add: huge_input_def)

text \<open>
  Claim C1, as amended. For every simulation input that passes validation the engine
  computes principal, interest amount and total loan by the stated formulas in the
  20-digit decimal arithmetic (each difference, product, quotient and sum rounded half-up
  to 20 significant digits), and the monthly instalment as the ceiling of the rounded
  quotient of total loan and tenor. Whenever price minus down payment, its product with
  the interest rate and the interest amount have at most 20 significant digits and the
  total loan has at most 19 digits in all, these are exactly
  \<open>principal = price - dp\<close>,
  \<open>interestAmount = principal \<times> (interest_rate / 100) \<times> tenorMonths\<close>,
  \<open>totalLoan = principal + interestAmount\<close> and
  \<open>monthlyInstallment = \<lceil>totalLoan / tenorMonths\<rceil>\<close>.
\<close>
theorem simulation_formula:
  fixes d :: nat
  assumes ok: "calculateSimulation prisma inp = Inr res"
  shows "principal (raw res) = dec_minus (price inp) (dp inp)
       \<and> interestAmount (raw res) =
           dec_mul (dec_div (dec_mul (principal (raw res)) (interest_rate (scheme res))) 100)
             (of_int (tenorMonths inp))
       \<and> totalLoan (raw res) = dec_plus (principal (raw res)) (interestAmount (raw res))
       \<and> monthlyInstallment (raw res) =
           of_int \<lceil>dec_div (totalLoan (raw res)) (of_int (tenorMonths inp))\<rceil>
       \<and> (dec_round (price inp - dp inp) = price inp - dp inp
            \<and> dec_round ((price inp - dp inp) * interest_rate (scheme res))
                = (price inp - dp inp) * interest_rate (scheme res)
            \<and> dec_round ((price inp - dp inp) * interest_rate (scheme res) / 100
                  * of_int (tenorMonths inp))
                = (price inp - dp inp) * interest_rate (scheme res) / 100
                    * of_int (tenorMonths inp)
            \<and> (price inp - dp inp
                  + (price inp - dp inp) * interest_rate (scheme res) / 100
                      * of_int (tenorMonths inp)) * 10 ^ d \<in> \<int>
            \<and> \<bar>price inp - dp inp
                  + (price inp - dp inp) * interest_rate (scheme res) / 100
                      * of_int (tenorMonths inp)\<bar> * 10 ^ d < 10 ^ 19
          \<longrightarrow> principal (raw res) = price inp - dp inp
            \<and> interestAmount (raw res) =
                principal (raw res) * (interest_rate (scheme res) / 100)
                  * of_int (tenorMonths inp)
            \<and> totalLoan (raw res) = principal (raw res) + interestAmount (raw res)
            \<and> monthlyInstallment (raw res) =
                of_int \<lceil>totalLoan (raw res) / of_int (tenorMonths inp)\<rceil>)"
proof -
  note D = calculateSimulation_InrD [OF ok]
  define P where "P = price inp - dp inp"
  define r where "r = interest_rate (scheme res)"
  define n where "n = tenorMonths inp"
  have m: "monthlyInstallment (raw res) =
      of_int \<lceil>dec_div (totalLoan (raw res)) (of_int (tenorMonths inp))\<rceil>"
    using D(9) unfolding toDecimalPlaces_ceil_def .
  have exact: "principal (raw res) = P
     \<and> interestAmount (raw res) = principal (raw res) * (r / 100) * of_int n
     \<and> totalLoan (raw res) = principal (raw res) + interestAmount (raw res)
     \<and> monthlyInstallment (raw res) = of_int \<lceil>totalLoan (raw res) / of_int n\<rceil>"
    if e1: "dec_round P = P" and e2: "dec_round (P * r) = P * r"
      and e3: "dec_round (P * r / 100 * of_int n) = P * r / 100 * of_int n"
      and TZ: "(P + P * r / 100 * of_int n) * 10 ^ d \<in> \<int>"
      and Tb: "\<bar>P + P * r / 100 * of_int n\<bar> * 10 ^ d < 10 ^ 19"
  proof -
    have p: "principal (raw res) = P" using D(6) e1 unfolding dec_minus_def P_def by simp
    have dd: "dec_div (dec_mul P r) 100 = P * r / 100"
      unfolding dec_mul_def dec_div_def dec_round_div_100 e2 ..
    have i0: "interestAmount (raw res) = dec_mul (dec_div (dec_mul P r) 100) (of_int n)"
      using D(7) unfolding p r_def n_def .
    have i: "interestAmount (raw res) = P * r / 100 * of_int n"
      unfolding i0 dd unfolding dec_mul_def e3 ..
    have "\<bar>P + P * r / 100 * of_int n\<bar> * 10 ^ d < 10 ^ precision"
      using Tb by (simp add: precision_def)
    then have "dec_round (P + P * r / 100 * of_int n) = P + P * r / 100 * of_int n"
      using TZ by (intro dec_round_exact)
    then have t: "totalLoan (raw res) = P + P * r / 100 * of_int n"
      using D(8) unfolding p i dec_plus_def by simp
    have b: "\<bar>totalLoan (raw res)\<bar> * 10 ^ d < 10 ^ (precision - 1)"
      using Tb unfolding t by (simp add: precision_def)
    have z: "totalLoan (raw res) * 10 ^ d \<in> \<int>" using TZ unfolding t .
    have "n \<noteq> 0" using D(4) unfolding n_def .
    then have "\<lceil>dec_round (totalLoan (raw res) / of_int n)\<rceil> = \<lceil>totalLoan (raw res) / of_int n\<rceil>"
      using z b by (rule dec_round_ceiling_nz)
    then have "monthlyInstallment (raw res) = of_int \<lceil>totalLoan (raw res) / of_int n\<rceil>"
      using m unfolding n_def dec_div_def by simp
    then show ?thesis using p i t by simp
  qed
  show ?thesis
    using D(6,7,8) m exact unfolding P_def r_def n_def by blast
qed

text \<open>
  The worked example: price 4,500,000, down payment 500,000, 2 percent a month, six
  months give principal 4,000,000, interest 480,000, total loan 4,480,000 and a monthly
  instalment of 746,667.
\<close>

theorem simulation_formula_witness:
  "calculateSimulation example_db example_input = Inr example_result
   \<and> dec_round (price example_input - dp example_input)
        = price example_input - dp example_input
   \<and> dec_round ((price example_input - dp example_input)
          * interest_rate (scheme example_result))
        = (price example_input - dp example_input) * interest_rate (scheme example_result)
   \<and> dec_round ((price example_input - dp example_input)
          * interest_rate (scheme example_result) / 100 * of_int (tenorMonths example_input))
        = (price example_input - dp example_input)
            * interest_rate (scheme example_result) / 100 * of_int (tenorMonths example_input)
   \<and> principal (raw example_result) = price example_input - dp example_input
   \<and> principal (raw example_result) = 4000000
   \<and> interestAmount (raw example_result) =
        principal (raw example_result) * (interest_rate (scheme example_result) / 100)
          * of_int (tenorMonths example_input)
   \<and> interestAmount (raw example_result) = 480000
   \<and> totalLoan (raw example_result) = 4480000
   \<and> monthlyInstallment (raw example_result) =
        of_int \<lceil>totalLoan (raw example_result) / of_int (tenorMonths example_input)\<rceil>
   \<and> monthlyInstallment (raw example_result) = 746667"
proof -
  have e: "dec_round (4000000 :: rat) = 4000000" "dec_round (8000000 :: rat) = 8000000"
    "dec_round (480000 :: rat) = 480000"
    by (simp_all add: dec_eval)
  show ?thesis
    using simulation_formula [OF example_simulation, of 0] example_simulation e
    by (simp add: example_result_def example_input_def scheme_reguler_def)
qed

section \<open>Creating a transaction\<close>

lemma installment_loop_rows:
  "installment_loop i n cid sd dd amt tx acc = (tx', out) \<Longrightarrow>
   \<exists>rows. out = acc @ rows
     \<and> installment_rows tx' = installment_rows tx @ rows
     \<and> map installment_nth rows = [i..n]
     \<and> (\<forall>r\<in>set rows. contract_id r = cid \<and> amount_due r = amt \<and> status r = UNPAID
            \<and> amount_paid r = 0 \<and> paid_at r = None
            \<and> due_date r = installmentDueDate sd (installment_nth r) dd)
     \<and> loanScheme_rows tx' = loanScheme_rows tx
     \<and> product_rows tx' = product_rows tx
     \<and> customer_rows tx' = customer_rows tx
     \<and> transaction_rows tx' = transaction_rows tx
     \<and> creditContract_rows tx' = creditContract_rows tx"
proof (induction i n cid sd dd amt tx acc rule: installment_loop.induct)
  case (1 i n cid sd dd amt tx acc)
  show ?case
  proof (cases "i \<le> n")
    case False
    with "1.prems" have "tx' = tx" "out = acc"
      by (simp_all add: installment_loop.simps [of i])
    with False show ?thesis by (simp add: upto.simps)
  next
    case True
    define row where "row =
      \<lparr> inst_id = next_id (map inst_id (installment_rows tx)), contract_id = cid,
        installment_nth = i, due_date = installmentDueDate sd i dd, amount_due = amt,
        amount_paid = 0, penalty_paid = 0, penalty_accrued = 0, status = UNPAID,
        paid_at = None \<rparr>"
    have step: "installment_loop (i + 1) n cid sd dd amt
        (tx \<lparr> installment_rows := installment_rows tx @ [row] \<rparr>) (acc @ [row]) = (tx', out)"
      using "1.prems" True unfolding row_def
      by (simp add: installment_loop.simps [of i] Let_def)
    from "1.IH" [OF True row_def step]
    obtain rows where r: "out = (acc @ [row]) @ rows"
      "installment_rows tx' = (installment_rows tx @ [row]) @ rows"
      "map installment_nth rows = [i + 1..n]"
      "\<forall>r\<in>set rows. contract_id r = cid \<and> amount_due r = amt \<and> status r = UNPAID
            \<and> amount_paid r = 0 \<and> paid_at r = None
            \<and> due_date r = installmentDueDate sd (installment_nth r) dd"
      "loanScheme_rows tx' = loanScheme_rows tx"
      "product_rows tx' = product_rows tx"
      "customer_rows tx' = customer_rows tx"
      "transaction_rows tx' = transaction_rows tx"
      "creditContract_rows tx' = creditContract_rows tx"
      by auto
    have u: "[i..n] = i # [i + 1..n]" using True by (simp add: upto_rec1)
    show ?thesis
      apply (rule exI [of _ "row # rows"])
      using r unfolding u by (simp add: row_def)
  qed
qed

lemma createTransaction_tx_InrD:
  assumes "createTransaction_tx now1 now2 inp tx = Inr (tx', out)"
  obtains product customer simulation tx3 where
    "findUnique product_id (product_rows tx) (productId inp) = Some product"
    "product_is_active product" "0 < stock_qty product"
    "findUnique customer_id (customer_rows tx) (customerId inp) = Some customer"
    "calculateSimulationWithTx tx
       \<lparr> price = price inp, dp = dp inp, schemeId = schemeId inp,
         tenorMonths = tenorMonths inp \<rparr> = Inr simulation"
    "tx_status (res_transaction out) = TX_ACTIVE"
    "monthly_installment (res_contract out) = toFixed 4 (monthlyInstallment (raw simulation))"
    "tenor_months (res_contract out) = tenorMonths inp"
    "installment_loop 1 (tenorMonths inp) (cc_id (res_contract out)) now2 (dueDateDay inp)
       (toFixed 4 (monthlyInstallment (raw simulation)))
       (tx \<lparr> transaction_rows := transaction_rows tx @ [res_transaction out],
             creditContract_rows := creditContract_rows tx @ [res_contract out] \<rparr>) []
       = (tx3, res_installments out)"
    "tx' = tx3 \<lparr> product_rows :=
                   update_where product_id (productId inp)
                     (\<lambda>p. p \<lparr> stock_qty := stock_qty p - 1 \<rparr>) (product_rows tx3) \<rparr>"
    "remainingStock (res_product out) = stock_qty product - 1"
  using assms unfolding createTransaction_tx_def Let_def
  by (auto split: option.splits if_splits sum.splits prod.splits)

lemma findUnique_update_where:
  assumes "\<And>r. key (f r) = key r"
  shows "findUnique key (update_where key k f rows) k' =
     (if k' = k then map_option f (findUnique key rows k) else findUnique key rows k')"
  unfolding findUnique_def update_where_def using assms by (induction rows) auto

lemma prisma_transaction_Inr_iff:
  "prisma_transaction body d = (d', Inr r) \<longleftrightarrow> body d = Inr (d', r)"
  unfolding prisma_transaction_def by (auto split: sum.splits)

lemma prisma_transaction_Inl_iff:
  "prisma_transaction body d = (d', Inl e) \<longleftrightarrow> d' = d \<and> body d = Inl e"
  unfolding prisma_transaction_def by (auto split: sum.splits)

lemma createTransaction_Inr_iff:
  "createTransaction now1 now2 prisma inp = (prisma', Inr out) \<longleftrightarrow>
     1 \<le> dueDateDay inp \<and> dueDateDay inp \<le> 28
     \<and> createTransaction_tx now1 now2 inp prisma = Inr (prisma', out)"
  unfolding createTransaction_def by (auto simp: prisma_transaction_Inr_iff)

lemma createTransaction_Inl_unchanged:
  "createTransaction now1 now2 prisma inp = (prisma', Inl e) \<Longrightarrow> prisma' = prisma"
  unfolding createTransaction_def by (auto simp: prisma_transaction_Inl_iff split: if_splits)

lemma monthlyInstallment_toFixed:
  assumes "calculateSimulation prisma inp = Inr res"
  shows "toFixed k (monthlyInstallment (raw res)) = monthlyInstallment (raw res)"
  unfolding calculateSimulation_InrD(9) [OF assms] toDecimalPlaces_ceil_def by simp

text \<open>
  Claim C2. Every successful CreateTransaction call with tenor \<open>tenorMonths\<close> creates
  exactly \<open>tenorMonths\<close> instalment rows, appended to the instalment table; their
  \<open>installment_nth\<close> values are \<open>1, \<dots>, tenorMonths\<close> in order; every row has
  \<open>amount_due\<close> equal to the monthly instalment of the simulation (which is also the
  contract's \<open>monthly_installment\<close>) and status UNPAID.
\<close>

theorem createTransaction_installments:
  assumes "createTransaction now1 now2 prisma inp = (prisma', Inr out)"
  shows "length (res_installments out) = nat (tenorMonths inp)
       \<and> map installment_nth (res_installments out) = [1..tenorMonths inp]
       \<and> installment_rows prisma' = installment_rows prisma @ res_installments out
       \<and> (\<exists>simulation.
             calculateSimulation prisma
               \<lparr> price = price inp, dp = dp inp, schemeId = schemeId inp,
                 tenorMonths = tenorMonths inp \<rparr> = Inr simulation
             \<and> monthly_installment (res_contract out) = monthlyInstallment (raw simulation)
             \<and> (\<forall>r\<in>set (res_installments out).
                   amount_due r = monthlyInstallment (raw simulation)
                   \<and> status r = UNPAID
                   \<and> contract_id r = cc_id (res_contract out)))"
proof -
  from assms have tx: "createTransaction_tx now1 now2 inp prisma = Inr (prisma', out)"
    by (simp add: createTransaction_Inr_iff)
  from tx obtain product customer simulation tx3 where
    sim: "calculateSimulationWithTx prisma
       \<lparr> price = price inp, dp = dp inp, schemeId = schemeId inp,
         tenorMonths = tenorMonths inp \<rparr> = Inr simulation"
    and mi: "monthly_installment (res_contract out) = toFixed 4 (monthlyInstallment (raw simulation))"
    and loop: "installment_loop 1 (tenorMonths inp) (cc_id (res_contract out)) now2 (dueDateDay inp)
       (toFixed 4 (monthlyInstallment (raw simulation)))
       (prisma \<lparr> transaction_rows := transaction_rows prisma @ [res_transaction out],
             creditContract_rows := creditContract_rows prisma @ [res_contract out] \<rparr>) []
       = (tx3, res_installments out)"
    and fin: "prisma' = tx3 \<lparr> product_rows :=
                   update_where product_id (productId inp)
                     (\<lambda>p. p \<lparr> stock_qty := stock_qty p - 1 \<rparr>) (product_rows tx3) \<rparr>"
    by (rule createTransaction_tx_InrD)
  from sim have sim': "calculateSimulation prisma
       \<lparr> price = price inp, dp = dp inp, schemeId = schemeId inp,
         tenorMonths = tenorMonths inp \<rparr> = Inr simulation"
    by (simp add: calculateSimulationWithTx_eq)
  note fx = monthlyInstallment_toFixed [OF sim', of 4]
  from installment_loop_rows [OF loop] obtain rows where
    r: "res_installments out = rows" "installment_rows tx3 = installment_rows prisma @ rows"
      "map installment_nth rows = [1..tenorMonths inp]"
      "\<forall>r\<in>set rows. contract_id r = cc_id (res_contract out)
          \<and> amount_due r = toFixed 4 (monthlyInstallment (raw simulation)) \<and> status r = UNPAID"
    by auto
  have "length rows = length [1..tenorMonths inp]" using r(3) by (metis length_map)
  then have len: "length rows = nat (tenorMonths inp)" by simp
  have rows': "installment_rows prisma' = installment_rows prisma @ rows"
    unfolding fin using r(2) by simp
  show ?thesis
    using len r(3) rows' sim' mi r(4) unfolding r(1) fx by blast
qed

lemma createTransaction_succeeds:
  assumes "1 \<le> dueDateDay inp" "dueDateDay inp \<le> 28"
    and "findUnique product_id (product_rows prisma) (productId inp) = Some product"
    and "product_is_active product" "0 < stock_qty product"
    and "findUnique customer_id (customer_rows prisma) (customerId inp) = Some customer"
    and "calculateSimulation prisma
           \<lparr> price = price inp, dp = dp inp, schemeId = schemeId inp,
             tenorMonths = tenorMonths inp \<rparr> = Inr simulation"
  shows "\<exists>prisma' out. createTransaction now1 now2 prisma inp = (prisma', Inr out)"
proof -
  have "\<exists>r. createTransaction_tx now1 now2 inp prisma = Inr r"
    using assms(3-7) unfolding createTransaction_tx_def Let_def calculateSimulationWithTx_eq
    by (simp split: prod.splits)
  then show ?thesis using assms(1,2) by (auto simp: createTransaction_Inr_iff)
qed

lemma example_sale_simulation:
  "\<exists>simulation. calculateSimulation example_db
      \<lparr> price = price example_sale, dp = dp example_sale, schemeId = schemeId example_sale,
        tenorMonths = tenorMonths example_sale \<rparr> = Inr simulation
      \<and> monthlyInstallment (raw simulation) = 1413334"
proof -
  let ?inp = "\<lparr> price = price example_sale, dp = dp example_sale,
     schemeId = schemeId example_sale, tenorMonths = tenorMonths example_sale \<rparr>"
  have s: "findUnique scheme_id (loanScheme_rows example_db) (schemeId ?inp) = Some scheme_reguler"
    by (simp add: findUnique_def example_defs example_sale_def)
  have P: "dec_minus (price ?inp) (dp ?inp) = 4000000"
    by (simp add: example_sale_def dec_eval)
  have I: "dec_mul (dec_div (dec_mul 4000000 (interest_rate scheme_reguler)) 100)
             (of_int (tenorMonths ?inp)) = 240000"
    by (simp add: example_sale_def scheme_reguler_def dec_eval)
  have T: "dec_plus 4000000 240000 = 4240000" by (simp add: dec_eval)
  have M: "toDecimalPlaces_ceil (dec_div 4240000 (of_int (tenorMonths ?inp))) = 1413334"
    by (simp add: example_sale_def dec_eval)
  have mn: "\<not> dec_lt (dp ?inp) (dec_div (dec_mul (price ?inp) (min_dp_percent scheme_reguler)) 100)"
    by (simp add: example_sale_def scheme_reguler_def dec_eval)
  note r = calculateSimulation_Inr [OF s _ _ mn _ P [symmetric] I [symmetric] T [symmetric]
      M [symmetric]]
  have "scheme_is_active scheme_reguler" "tenorMonths ?inp \<in> set (tenor_options scheme_reguler)"
    "tenorMonths ?inp \<noteq> 0"
    by (simp_all add: scheme_reguler_def example_sale_def)
  from r [OF this] show ?thesis by simp
qed

lemma example_sale_succeeds:
  "\<exists>prisma' out. createTransaction now1 now2 example_db example_sale = (prisma', Inr out)"
proof -
  from example_sale_simulation obtain simulation where
    "calculateSimulation example_db
      \<lparr> price = price example_sale, dp = dp example_sale, schemeId = schemeId example_sale,
        tenorMonths = tenorMonths example_sale \<rparr> = Inr simulation" by blast
  moreover have "findUnique product_id (product_rows example_db) (productId example_sale)
      = Some product_kulkas"
    by (simp add: findUnique_def example_defs example_sale_def)
  moreover have "findUnique customer_id (customer_rows example_db) (customerId example_sale)
      = Some customer_budi"
    by (simp add: findUnique_def example_defs example_sale_def)
  moreover have "product_is_active product_kulkas" "0 < stock_qty product_kulkas"
    "1 \<le> dueDateDay example_sale" "dueDateDay example_sale \<le> 28"
    by (simp_all add: product_kulkas_def example_sale_def)
  ultimately show ?thesis by (intro createTransaction_succeeds)
qed

text \<open>
  The example sale succeeds and creates instalments 1, 2, 3 of 1,413,334 each, all UNPAID.
\<close>

theorem createTransaction_installments_witness:
  "\<not> isl (snd (createTransaction jan31 jan31 example_db example_sale))
   \<and> length (res_installments (projr (snd (createTransaction jan31 jan31 example_db example_sale))))
        = 3
   \<and> map installment_nth
        (res_installments (projr (snd (createTransaction jan31 jan31 example_db example_sale))))
        = [1, 2, 3]
   \<and> map amount_due
        (res_installments (projr (snd (createTransaction jan31 jan31 example_db example_sale))))
        = [1413334, 1413334, 1413334]
   \<and> map status
        (res_installments (projr (snd (createTransaction jan31 jan31 example_db example_sale))))
        = [UNPAID, UNPAID, UNPAID]"
proof -
  from example_sale_succeeds obtain prisma' out where
    c: "createTransaction jan31 jan31 example_db example_sale = (prisma', Inr out)" by blast
  from example_sale_simulation obtain sim0 where
    s0: "calculateSimulation example_db
      \<lparr> price = price example_sale, dp = dp example_sale, schemeId = schemeId example_sale,
        tenorMonths = tenorMonths example_sale \<rparr> = Inr sim0"
      "monthlyInstallment (raw sim0) = 1413334" by blast
  from createTransaction_installments [OF c] s0
  have len: "length (res_installments out) = 3"
    and nth: "map installment_nth (res_installments out) = [1, 2, 3]"
    and rows: "\<forall>r\<in>set (res_installments out). amount_due r = 1413334 \<and> status r = UNPAID"
    by (auto simp: example_sale_def upto_rec1)
  from len obtain a b c' where abc: "res_installments out = [a, b, c']"
    by (auto simp: length_Suc_conv numeral_3_eq_3)
  show ?thesis unfolding c using len nth rows abc by simp
qed

lemma createTransaction_tx_Inr_ex:
  assumes "createTransaction_tx now1 now2 inp tx = Inr (tx', out)"
  shows "\<exists>product (simulation :: SimulationResult) tx3.
    findUnique product_id (product_rows tx) (productId inp) = Some product
    \<and> 0 < stock_qty product
    \<and> remainingStock (res_product out) = stock_qty product - 1
    \<and> installment_loop 1 (tenorMonths inp) (cc_id (res_contract out)) now2 (dueDateDay inp)
       (toFixed 4 (monthlyInstallment (raw simulation)))
       (tx \<lparr> transaction_rows := transaction_rows tx @ [res_transaction out],
             creditContract_rows := creditContract_rows tx @ [res_contract out] \<rparr>) []
       = (tx3, res_installments out)
    \<and> tx' = tx3 \<lparr> product_rows :=
                   update_where product_id (productId inp)
                     (\<lambda>p. p \<lparr> stock_qty := stock_qty p - 1 \<rparr>) (product_rows tx3) \<rparr>"
proof -
  from assms obtain product customer simulation tx3 where
    f: "findUnique product_id (product_rows tx) (productId inp) = Some product"
    "product_is_active product" "0 < stock_qty product"
    "findUnique customer_id (customer_rows tx) (customerId inp) = Some customer"
    "calculateSimulationWithTx tx
       \<lparr> price = price inp, dp = dp inp, schemeId = schemeId inp,
         tenorMonths = tenorMonths inp \<rparr> = Inr simulation"
    "tx_status (res_transaction out) = TX_ACTIVE"
    "monthly_installment (res_contract out) = toFixed 4 (monthlyInstallment (raw simulation))"
    "tenor_months (res_contract out) = tenorMonths inp"
    "installment_loop 1 (tenorMonths inp) (cc_id (res_contract out)) now2 (dueDateDay inp)
       (toFixed 4 (monthlyInstallment (raw simulation)))
       (tx \<lparr> transaction_rows := transaction_rows tx @ [res_transaction out],
             creditContract_rows := creditContract_rows tx @ [res_contract out] \<rparr>) []
       = (tx3, res_installments out)"
    "tx' = tx3 \<lparr> product_rows :=
                   update_where product_id (productId inp)
                     (\<lambda>p. p \<lparr> stock_qty := stock_qty p - 1 \<rparr>) (product_rows tx3) \<rparr>"
    "remainingStock (res_product out) = stock_qty product - 1"
    by (rule createTransaction_tx_InrD)
  from f(1,3,11,9,10) show ?thesis by blast
qed


lemma createTransaction_Inr_state:
  assumes "createTransaction now1 now2 prisma inp = (prisma', Inr out)"
  shows "loanScheme_rows prisma' = loanScheme_rows prisma"
    and "customer_rows prisma' = customer_rows prisma"
    and "product_rows prisma' =
           update_where product_id (productId inp) (\<lambda>p. p \<lparr> stock_qty := stock_qty p - 1 \<rparr>)
             (product_rows prisma)"
    and "transaction_rows prisma' = transaction_rows prisma @ [res_transaction out]"
    and "creditContract_rows prisma' = creditContract_rows prisma @ [res_contract out]"
    and "installment_rows prisma' = installment_rows prisma @ res_installments out"
    and "map due_date (res_installments out) =
           map (\<lambda>i. installmentDueDate now2 i (dueDateDay inp)) [1..tenorMonths inp]"
proof -
  from assms have tx: "createTransaction_tx now1 now2 inp prisma = Inr (prisma', out)"
    by (simp add: createTransaction_Inr_iff)
  from createTransaction_tx_Inr_ex [OF tx] obtain simulation :: SimulationResult and tx3 where
    loop: "installment_loop 1 (tenorMonths inp) (cc_id (res_contract out)) now2 (dueDateDay inp)
       (toFixed 4 (monthlyInstallment (raw simulation)))
       (prisma \<lparr> transaction_rows := transaction_rows prisma @ [res_transaction out],
             creditContract_rows := creditContract_rows prisma @ [res_contract out] \<rparr>) []
       = (tx3, res_installments out)"
    and fin: "prisma' = tx3 \<lparr> product_rows :=
                   update_where product_id (productId inp)
                     (\<lambda>p. p \<lparr> stock_qty := stock_qty p - 1 \<rparr>) (product_rows tx3) \<rparr>"
    by auto
  from installment_loop_rows [OF loop] obtain rows where
    r: "res_installments out = rows" "installment_rows tx3 = installment_rows prisma @ rows"
      "map installment_nth rows = [1..tenorMonths inp]"
      "\<forall>r\<in>set rows. due_date r = installmentDueDate now2 (installment_nth r) (dueDateDay inp)"
      "loanScheme_rows tx3 = loanScheme_rows prisma"
      "product_rows tx3 = product_rows prisma"
      "customer_rows tx3 = customer_rows prisma"
      "transaction_rows tx3 = transaction_rows prisma @ [res_transaction out]"
      "creditContract_rows tx3 = creditContract_rows prisma @ [res_contract out]"
    by auto
  show "loanScheme_rows prisma' = loanScheme_rows prisma" unfolding fin using r(5) by simp
  show "customer_rows prisma' = customer_rows prisma" unfolding fin using r(7) by simp
  show "product_rows prisma' =
           update_where product_id (productId inp) (\<lambda>p. p \<lparr> stock_qty := stock_qty p - 1 \<rparr>)
             (product_rows prisma)" unfolding fin using r(6) by simp
  show "transaction_rows prisma' = transaction_rows prisma @ [res_transaction out]"
    unfolding fin using r(8) by simp
  show "creditContract_rows prisma' = creditContract_rows prisma @ [res_contract out]"
    unfolding fin using r(9) by simp
  show "installment_rows prisma' = installment_rows prisma @ res_installments out"
    unfolding fin using r(1,2) by simp
  have "map due_date rows = map (\<lambda>r. installmentDueDate now2 (installment_nth r) (dueDateDay inp)) rows"
    using r(4) by (intro map_cong) auto
  also have "\<dots> = map (\<lambda>i. installmentDueDate now2 i (dueDateDay inp)) (map installment_nth rows)"
    by (simp add: comp_def)
  finally show "map due_date (res_installments out) =
           map (\<lambda>i. installmentDueDate now2 i (dueDateDay inp)) [1..tenorMonths inp]"
    unfolding r(1) r(3) .
qed

lemma createTransaction_stock_step:
  assumes "createTransaction now1 now2 prisma inp = (prisma', Inr out)"
  shows "\<exists>p. findUnique product_id (product_rows prisma) (productId inp) = Some p
           \<and> 0 < stock_qty p
           \<and> findUnique product_id (product_rows prisma') (productId inp)
               = Some (p \<lparr> stock_qty := stock_qty p - 1 \<rparr>)
           \<and> remainingStock (res_product out) = stock_qty p - 1"
proof -
  from assms have tx: "createTransaction_tx now1 now2 inp prisma = Inr (prisma', out)"
    by (simp add: createTransaction_Inr_iff)
  from createTransaction_tx_Inr_ex [OF tx] obtain product where
    p: "findUnique product_id (product_rows prisma) (productId inp) = Some product"
      "0 < stock_qty product" "remainingStock (res_product out) = stock_qty product - 1"
    by auto
  have "findUnique product_id (product_rows prisma') (productId inp)
      = Some (product \<lparr> stock_qty := stock_qty product - 1 \<rparr>)"
    unfolding createTransaction_Inr_state(3) [OF assms]
    by (simp add: findUnique_update_where p(1))
  with p show ?thesis by blast
qed

lemma createTransaction_other_product:
  assumes "createTransaction now1 now2 prisma inp = (prisma', r)" "productId inp \<noteq> pid"
  shows "findUnique product_id (product_rows prisma') pid
           = findUnique product_id (product_rows prisma) pid"
proof (cases r)
  case (Inl e)
  with assms(1) have "prisma' = prisma" by (auto dest: createTransaction_Inl_unchanged)
  then show ?thesis by simp
next
  case (Inr out)
  with assms(1) have c: "createTransaction now1 now2 prisma inp = (prisma', Inr out)" by simp
  show ?thesis unfolding createTransaction_Inr_state(3) [OF c]
    using assms(2) by (simp add: findUnique_update_where)
qed

lemma createTransaction_no_stock:
  assumes "findUnique product_id (product_rows prisma) (productId inp) = Some p"
    and "stock_qty p \<le> 0"
  shows "\<exists>e. createTransaction now1 now2 prisma inp = (prisma, Inl e)"
  using assms unfolding createTransaction_def createTransaction_tx_def prisma_transaction_def
  by simp

lemma createTransaction_sequence_stock:
  assumes "\<forall>c\<in>set calls. productId (snd (snd c)) = pid"
    and "findUnique product_id (product_rows prisma) pid = Some q"
  shows "findUnique product_id (product_rows (fst (createTransaction_sequence prisma calls))) pid
     = Some (q \<lparr> stock_qty := stock_qty q - int (snd (createTransaction_sequence prisma calls)) \<rparr>)"
  using assms
proof (induction calls arbitrary: prisma q)
  case Nil
  then show ?case by simp
next
  case (Cons c calls)
  obtain now1 now2 inp where c: "c = (now1, now2, inp)" by (cases c) auto
  from Cons.prems(1) have pid: "productId inp = pid"
    and rest: "\<forall>c\<in>set calls. productId (snd (snd c)) = pid" by (auto simp: c)
  obtain prisma' r where call: "createTransaction now1 now2 prisma inp = (prisma', r)"
    by (cases "createTransaction now1 now2 prisma inp") auto
  show ?case
  proof (cases r)
    case (Inl e)
    with call have "prisma' = prisma" by (auto dest: createTransaction_Inl_unchanged)
    with Cons.IH [OF rest Cons.prems(2)] call Inl show ?thesis by (simp add: c)
  next
    case (Inr out)
    with call have ok: "createTransaction now1 now2 prisma inp = (prisma', Inr out)" by simp
    from createTransaction_stock_step [OF ok] Cons.prems(2)
    have q': "findUnique product_id (product_rows prisma') pid
        = Some (q \<lparr> stock_qty := stock_qty q - 1 \<rparr>)" by (auto simp: pid)
    obtain prisma'' k where sq: "createTransaction_sequence prisma' calls = (prisma'', k)"
      by (cases "createTransaction_sequence prisma' calls") auto
    have "stock_qty q - 1 - int k = stock_qty q - int (Suc k)" by simp
    with Cons.IH [OF rest q'] ok show ?thesis
      unfolding c by (simp add: sq)
  qed
qed

text \<open>
  Claim C6. A successful CreateTransaction call leaves the product's row with
  \<open>stock_qty\<close> decreased by exactly 1; after a run of calls on one product its
  \<open>stock_qty\<close> is the earlier value minus the number of calls that succeeded; and a call
  on a product whose \<open>stock_qty\<close> is 0 fails and leaves the whole state as it was.
\<close>

theorem stock_monotonicity:
  "(createTransaction now1 now2 prisma inp = (prisma', Inr out) \<longrightarrow>
      (\<exists>p. findUnique product_id (product_rows prisma) (productId inp) = Some p
         \<and> findUnique product_id (product_rows prisma') (productId inp)
             = Some (p \<lparr> stock_qty := stock_qty p - 1 \<rparr>)))
   \<and> ((\<forall>c\<in>set calls. productId (snd (snd c)) = pid)
        \<and> findUnique product_id (product_rows prisma) pid = Some q \<longrightarrow>
      findUnique product_id (product_rows (fst (createTransaction_sequence prisma calls))) pid
        = Some (q \<lparr> stock_qty :=
                    stock_qty q - int (snd (createTransaction_sequence prisma calls)) \<rparr>))
   \<and> (findUnique product_id (product_rows prisma) (productId inp) = Some p0
        \<and> stock_qty p0 = 0 \<longrightarrow>
      (\<exists>e. createTransaction now1 now2 prisma inp = (prisma, Inl e)))"
  using createTransaction_stock_step [of now1 now2 prisma inp prisma' out]
    createTransaction_sequence_stock [of calls pid prisma q]
    createTransaction_no_stock [of prisma inp p0 now1 now2]
  by auto

lemma calculateSimulation_cong:
  "loanScheme_rows a = loanScheme_rows b \<Longrightarrow> calculateSimulation a inp = calculateSimulation b inp"
  unfolding calculateSimulation_def by simp

lemma createTransaction_again:
  assumes c: "createTransaction now1 now2 prisma inp = (prisma', Inr out)"
    and p: "findUnique product_id (product_rows prisma) (productId inp) = Some p"
      "1 < stock_qty p"
  shows "\<exists>prisma'' out'. createTransaction now3 now4 prisma' inp = (prisma'', Inr out')"
proof -
  from c have tx: "createTransaction_tx now1 now2 inp prisma = Inr (prisma', out)"
    and dd: "1 \<le> dueDateDay inp" "dueDateDay inp \<le> 28"
    by (simp_all add: createTransaction_Inr_iff)
  from tx obtain product customer simulation tx3 where
    f: "findUnique product_id (product_rows prisma) (productId inp) = Some product"
    "product_is_active product" "0 < stock_qty product"
    "findUnique customer_id (customer_rows prisma) (customerId inp) = Some customer"
    "calculateSimulationWithTx prisma
       \<lparr> price = price inp, dp = dp inp, schemeId = schemeId inp,
         tenorMonths = tenorMonths inp \<rparr> = Inr simulation"
    by (rule createTransaction_tx_InrD)
  from f(1) p(1) have pp: "product = p" by simp
  from createTransaction_stock_step [OF c] p(1)
  have 1: "findUnique product_id (product_rows prisma') (productId inp)
      = Some (p \<lparr> stock_qty := stock_qty p - 1 \<rparr>)" by auto
  have 2: "product_is_active (p \<lparr> stock_qty := stock_qty p - 1 \<rparr>)"
    "0 < stock_qty (p \<lparr> stock_qty := stock_qty p - 1 \<rparr>)"
    using f(2) p(2) pp by simp_all
  have 3: "findUnique customer_id (customer_rows prisma') (customerId inp) = Some customer"
    unfolding createTransaction_Inr_state(2) [OF c] by (rule f(4))
  have 4: "calculateSimulation prisma'
       \<lparr> price = price inp, dp = dp inp, schemeId = schemeId inp,
         tenorMonths = tenorMonths inp \<rparr> = Inr simulation"
    using f(5) calculateSimulation_cong [OF createTransaction_Inr_state(1) [OF c]]
    by (simp add: calculateSimulationWithTx_eq)
  show ?thesis by (rule createTransaction_succeeds [OF dd 1 2 3 4])
qed

lemma kulkas_found:
  "findUnique product_id (product_rows example_db) (productId example_sale) = Some product_kulkas"
  by (simp add: findUnique_def example_defs example_sale_def)

lemma three_sales_successes: "snd (createTransaction_sequence example_db three_sales) = 2"
proof -
  from example_sale_succeeds obtain p1 out1 where
    c1: "createTransaction jan31 jan31 example_db example_sale = (p1, Inr out1)" by blast
  have "1 < stock_qty product_kulkas" by (simp add: product_kulkas_def)
  from createTransaction_again [OF c1 kulkas_found this] obtain p2 out2 where
    c2: "createTransaction jan31 jan31 p1 example_sale = (p2, Inr out2)" by blast
  from createTransaction_stock_step [OF c1] kulkas_found
  have s1: "findUnique product_id (product_rows p1) (productId example_sale)
      = Some (product_kulkas \<lparr> stock_qty := stock_qty product_kulkas - 1 \<rparr>)" by auto
  from createTransaction_stock_step [OF c2] s1
  have s2: "findUnique product_id (product_rows p2) (productId example_sale)
      = Some (product_kulkas \<lparr> stock_qty := stock_qty product_kulkas - 1 - 1 \<rparr>)" by auto
  have "stock_qty (product_kulkas \<lparr> stock_qty := stock_qty product_kulkas - 1 - 1 \<rparr>) \<le> 0"
    by (simp add: product_kulkas_def)
  from createTransaction_no_stock [OF s2 this] obtain e where
    c3: "createTransaction jan31 jan31 p2 example_sale = (p2, Inl e)" by blast
  show ?thesis unfolding three_sales_def by (simp add: c1 c2 c3)
qed

lemma sofa_sale_fails:
  "createTransaction jan31 jan31 example_db sofa_sale
     = (example_db, Inl (ProductOutOfStock ''Sofa''))"
proof -
  have "findUnique product_id (product_rows example_db) (productId sofa_sale) = Some product_sofa"
    by (simp add: findUnique_def example_defs sofa_sale_def)
  moreover have "product_is_active product_sofa" "stock_qty product_sofa \<le> 0"
    "product_name product_sofa = ''Sofa''" "\<not> (dueDateDay sofa_sale < 1 \<or> dueDateDay sofa_sale > 28)"
    by (simp_all add: product_sofa_def sofa_sale_def)
  ultimately show ?thesis
    unfolding createTransaction_def createTransaction_tx_def prisma_transaction_def by simp
qed

text \<open>
  The refrigerator starts with 2 in stock: one sale leaves 1; of three sales in a row two
  succeed and leave 0; the sofa, with 0 in stock, cannot be sold and the state is unchanged.
\<close>

theorem stock_monotonicity_witness:
  "\<not> isl (snd (createTransaction jan31 jan31 example_db example_sale))
   \<and> map_option stock_qty (findUnique product_id (product_rows example_db) 1) = Some 2
   \<and> map_option stock_qty
        (findUnique product_id
          (product_rows (fst (createTransaction jan31 jan31 example_db example_sale))) 1) = Some 1
   \<and> snd (createTransaction_sequence example_db three_sales) = 2
   \<and> map_option stock_qty
        (findUnique product_id
          (product_rows (fst (createTransaction_sequence example_db three_sales))) 1) = Some 0
   \<and> map_option stock_qty (findUnique product_id (product_rows example_db) 2) = Some 0
   \<and> createTransaction jan31 jan31 example_db sofa_sale
        = (example_db, Inl (ProductOutOfStock ''Sofa''))"
proof -
  from example_sale_succeeds obtain p1 out1 where
    c1: "createTransaction jan31 jan31 example_db example_sale = (p1, Inr out1)" by blast
  have k: "findUnique product_id (product_rows example_db) 1 = Some product_kulkas"
    using kulkas_found by (simp add: example_sale_def)
  have s: "findUnique product_id (product_rows example_db) 2 = Some product_sofa"
    by (simp add: findUnique_def example_defs)
  have all: "\<forall>c\<in>set three_sales. productId (snd (snd c)) = 1"
    by (simp add: three_sales_def example_sale_def)
  note t1 = stock_monotonicity [of jan31 jan31 example_db example_sale p1 out1 three_sales 1
      product_kulkas]
  note t2 = stock_monotonicity [of jan31 jan31 example_db sofa_sale _ _ "[]" 2 product_sofa
      product_sofa]
  have "map_option stock_qty (findUnique product_id (product_rows p1) 1) = Some 1"
    using t1 c1 k by (auto simp: example_sale_def product_kulkas_def)
  moreover have "map_option stock_qty
        (findUnique product_id
          (product_rows (fst (createTransaction_sequence example_db three_sales))) 1) = Some 0"
    using t1 all k three_sales_successes by (simp add: product_kulkas_def)
  moreover have "\<exists>e. createTransaction jan31 jan31 example_db sofa_sale = (example_db, Inl e)"
    using t2 s by (simp add: sofa_sale_def product_sofa_def)
  ultimately show ?thesis
    using c1 k s three_sales_successes sofa_sale_fails
    by (simp add: product_kulkas_def product_sofa_def)
qed

lemmas date_eval = make_date_def roll_day.simps days_in_month_def leap_year_def

lemma setMonth_jan31:
  "setMonth \<lparr> date_year = 2025, date_month = 0, date_day = 31, date_time = t \<rparr> 1
     = \<lparr> date_year = 2025, date_month = 2, date_day = 3, date_time = t \<rparr>"
  "setMonth \<lparr> date_year = 2025, date_month = 0, date_day = 31, date_time = t \<rparr> 2
     = \<lparr> date_year = 2025, date_month = 2, date_day = 31, date_time = t \<rparr>"
  "setMonth \<lparr> date_year = 2025, date_month = 0, date_day = 31, date_time = t \<rparr> 3
     = \<lparr> date_year = 2025, date_month = 4, date_day = 1, date_time = t \<rparr>"
  by (simp_all add: setMonth_def date_eval)

lemma setDate_5:
  "setDate \<lparr> date_year = 2025, date_month = 2, date_day = 3, date_time = t \<rparr> 5
     = \<lparr> date_year = 2025, date_month = 2, date_day = 5, date_time = t \<rparr>"
  "setDate \<lparr> date_year = 2025, date_month = 2, date_day = 31, date_time = t \<rparr> 5
     = \<lparr> date_year = 2025, date_month = 2, date_day = 5, date_time = t \<rparr>"
  "setDate \<lparr> date_year = 2025, date_month = 4, date_day = 1, date_time = t \<rparr> 5
     = \<lparr> date_year = 2025, date_month = 4, date_day = 5, date_time = t \<rparr>"
  by (simp_all add: setDate_def date_eval)

lemma due_dates_jan31:
  "installmentDueDate jan31 1 5 = \<lparr> date_year = 2025, date_month = 2, date_day = 5, date_time = 0 \<rparr>"
  "installmentDueDate jan31 2 5 = \<lparr> date_year = 2025, date_month = 2, date_day = 5, date_time = 0 \<rparr>"
  "installmentDueDate jan31 3 5 = \<lparr> date_year = 2025, date_month = 4, date_day = 5, date_time = 0 \<rparr>"
  unfolding installmentDueDate_def Let_def getMonth_def jan31_def
  by (simp_all add: setMonth_jan31 setDate_5 setHours0_def)


lemma createTransaction_start_date:
  assumes "createTransaction now1 now2 prisma inp = (prisma', Inr out)"
  shows "start_date (res_contract out) = now1"
proof -
  from assms have "createTransaction_tx now1 now2 inp prisma = Inr (prisma', out)"
    by (simp add: createTransaction_Inr_iff)
  then show ?thesis unfolding createTransaction_tx_def Let_def
    by (auto split: option.splits if_splits sum.splits prod.splits)
qed

text \<open>
  From a start date on day 1 to 28 the loop computes the due date that the specification
  describes; the two differ only for start dates on days 29 to 31.
\<close>

lemma roll_day_in_month:
  "1 \<le> d \<Longrightarrow> d \<le> 28 \<Longrightarrow> roll_day y m d = (y, m, d)"
  by (simp add: roll_day.simps days_in_month_def)

lemma installmentDueDate_spec_due_date:
  assumes "1 \<le> date_day startDate" "date_day startDate \<le> 28"
    and "1 \<le> dueDateDay_v" "dueDateDay_v \<le> 28"
  shows "installmentDueDate startDate i dueDateDay_v = spec_due_date startDate i dueDateDay_v"
  using assms
  unfolding installmentDueDate_def Let_def getMonth_def setMonth_def setDate_def setHours0_def
    make_date_def spec_due_date_def
  by (simp add: roll_day_in_month)

text \<open>
  Claim C9, evaluated on the code where it fails. A contract started on 31 January 2025
  with due day 5 gets the due dates 5 March, 5 March and 5 May: \<^verbatim>\<open>setMonth\<close> runs
  before \<^verbatim>\<open>setDate\<close>, so 31 February rolls over into March before the day is set.
  The start date advanced by 1, 2 and 3 calendar months with the day set to 5 is
  5 February, 5 March and 5 April.
\<close>

theorem due_dates_from_month_end:
  "map_sum id (\<lambda>out. (start_date (res_contract out), map due_date (res_installments out)))
     (snd (createTransaction jan31 jan31 example_db example_sale))
   = Inr (\<lparr> date_year = 2025, date_month = 0, date_day = 31, date_time = 36000000 \<rparr>,
          [\<lparr> date_year = 2025, date_month = 2, date_day = 5, date_time = 0 \<rparr>,
           \<lparr> date_year = 2025, date_month = 2, date_day = 5, date_time = 0 \<rparr>,
           \<lparr> date_year = 2025, date_month = 4, date_day = 5, date_time = 0 \<rparr>])
   \<and> map (\<lambda>i. spec_due_date jan31 i 5) [1, 2, 3]
       = [\<lparr> date_year = 2025, date_month = 1, date_day = 5, date_time = 0 \<rparr>,
          \<lparr> date_year = 2025, date_month = 2, date_day = 5, date_time = 0 \<rparr>,
          \<lparr> date_year = 2025, date_month = 3, date_day = 5, date_time = 0 \<rparr>]"
proof -
  from example_sale_succeeds obtain prisma' out where
    c: "createTransaction jan31 jan31 example_db example_sale = (prisma', Inr out)" by blast
  have "[1..tenorMonths example_sale] = [1, 2, 3]"
    by (simp add: example_sale_def upto_rec1)
  then have "map due_date (res_installments out) =
      [installmentDueDate jan31 1 5, installmentDueDate jan31 2 5, installmentDueDate jan31 3 5]"
    using createTransaction_Inr_state(7) [OF c] by (simp add: example_sale_def)
  moreover have "start_date (res_contract out) = jan31" by (rule createTransaction_start_date [OF c])
  moreover have "map (\<lambda>i. spec_due_date jan31 i 5) [1, 2, 3]
       = [\<lparr> date_year = 2025, date_month = 1, date_day = 5, date_time = 0 \<rparr>,
          \<lparr> date_year = 2025, date_month = 2, date_day = 5, date_time = 0 \<rparr>,
          \<lparr> date_year = 2025, date_month = 3, date_day = 5, date_time = 0 \<rparr>]"
    by (simp add: spec_due_date_def jan31_def)
  ultimately show ?thesis unfolding c by (simp add: due_dates_jan31) (simp add: jan31_def)
qed

section \<open>Paying an instalment\<close>

lemma payInstallment_tx_Inr:
  assumes "findUnique inst_id (installment_rows tx) iid = Some inst"
    and "status inst \<noteq> PAID"
    and "findUnique cc_id (creditContract_rows tx) (contract_id inst) = Some c"
    and "findUnique tx_id (transaction_rows tx) (transaction_id c) = Some t"
  shows "payInstallment_tx now iid tx =
     Inr (tx \<lparr> installment_rows :=
                 update_where inst_id iid
                   (\<lambda>r. r \<lparr> status := PAID, amount_paid := amount_due inst, paid_at := Some now \<rparr>)
                   (installment_rows tx),
               transaction_rows :=
                 (if list_all (\<lambda>r. inst_id r = iid \<or> status r = PAID)
                       (filter (\<lambda>r. contract_id r = cc_id c) (installment_rows tx))
                  then update_where tx_id (transaction_id c) (\<lambda>t. t \<lparr> tx_status := TX_PAID \<rparr>)
                         (transaction_rows tx)
                  else transaction_rows tx) \<rparr>, ())"
proof -
  have e: "(\<lambda>inst. if inst_id inst = iid then True else status inst = PAID)
      = (\<lambda>r. inst_id r = iid \<or> status r = PAID)" by auto
  show ?thesis
    using assms unfolding payInstallment_tx_def Let_def e by simp
qed

lemma payInstallment_tx_found:
  assumes "findUnique inst_id (installment_rows tx) iid = Some inst"
    and "status inst \<noteq> PAID"
    and "findUnique cc_id (creditContract_rows tx) (contract_id inst) = Some c"
  shows "payInstallment_tx now iid tx =
     (if list_all (\<lambda>r. inst_id r = iid \<or> status r = PAID)
           (filter (\<lambda>r. contract_id r = cc_id c) (installment_rows tx))
      then (case findUnique tx_id (transaction_rows tx) (transaction_id c) of
              None \<Rightarrow> Inl LibraryError
            | Some _ \<Rightarrow>
                Inr (tx \<lparr> installment_rows :=
                            update_where inst_id iid
                              (\<lambda>r. r \<lparr> status := PAID, amount_paid := amount_due inst,
                                       paid_at := Some now \<rparr>)
                              (installment_rows tx),
                          transaction_rows :=
                            update_where tx_id (transaction_id c)
                              (\<lambda>t. t \<lparr> tx_status := TX_PAID \<rparr>) (transaction_rows tx) \<rparr>, ()))
      else Inr (tx \<lparr> installment_rows :=
                       update_where inst_id iid
                         (\<lambda>r. r \<lparr> status := PAID, amount_paid := amount_due inst,
                                  paid_at := Some now \<rparr>)
                         (installment_rows tx) \<rparr>, ()))"
proof -
  have e: "(\<lambda>inst. if inst_id inst = iid then True else status inst = PAID)
      = (\<lambda>r. inst_id r = iid \<or> status r = PAID)" by auto
  show ?thesis
    using assms unfolding payInstallment_tx_def Let_def e by (simp split: option.split)
qed

lemma payInstallment_tx_InrD:
  assumes "payInstallment_tx now iid tx = Inr (tx', u)"
  shows "\<exists>inst c.
      findUnique inst_id (installment_rows tx) iid = Some inst
    \<and> status inst \<noteq> PAID
    \<and> findUnique cc_id (creditContract_rows tx) (contract_id inst) = Some c
    \<and> installment_rows tx' =
         update_where inst_id iid
           (\<lambda>r. r \<lparr> status := PAID, amount_paid := amount_due inst, paid_at := Some now \<rparr>)
           (installment_rows tx)
    \<and> creditContract_rows tx' = creditContract_rows tx
    \<and> (if list_all (\<lambda>r. inst_id r = iid \<or> status r = PAID)
              (filter (\<lambda>r. contract_id r = cc_id c) (installment_rows tx))
        then (\<exists>t. findUnique tx_id (transaction_rows tx) (transaction_id c) = Some t)
           \<and> transaction_rows tx' =
               update_where tx_id (transaction_id c) (\<lambda>t. t \<lparr> tx_status := TX_PAID \<rparr>)
                 (transaction_rows tx)
        else transaction_rows tx' = transaction_rows tx)"
proof -
  obtain inst where i: "findUnique inst_id (installment_rows tx) iid = Some inst"
    using assms unfolding payInstallment_tx_def
    by (cases "findUnique inst_id (installment_rows tx) iid") simp_all
  have np: "status inst \<noteq> PAID"
    using assms i unfolding payInstallment_tx_def by (cases "status inst = PAID") simp_all
  obtain c where c: "findUnique cc_id (creditContract_rows tx) (contract_id inst) = Some c"
    using assms i np unfolding payInstallment_tx_def Let_def
    by (cases "findUnique cc_id (creditContract_rows tx) (contract_id inst)") simp_all
  note eq = assms [unfolded payInstallment_tx_found [OF i np c]]
  show ?thesis
  proof (cases "list_all (\<lambda>r. inst_id r = iid \<or> status r = PAID)
              (filter (\<lambda>r. contract_id r = cc_id c) (installment_rows tx))")
    case True
    with eq obtain t where t: "findUnique tx_id (transaction_rows tx) (transaction_id c) = Some t"
      by (cases "findUnique tx_id (transaction_rows tx) (transaction_id c)") simp_all
    from eq True t have "tx' = tx \<lparr> installment_rows :=
                            update_where inst_id iid
                              (\<lambda>r. r \<lparr> status := PAID, amount_paid := amount_due inst,
                                       paid_at := Some now \<rparr>)
                              (installment_rows tx),
                          transaction_rows :=
                            update_where tx_id (transaction_id c)
                              (\<lambda>t. t \<lparr> tx_status := TX_PAID \<rparr>) (transaction_rows tx) \<rparr>"
      by simp
    then show ?thesis using i np c True t by simp
  next
    case False
    with eq have "tx' = tx \<lparr> installment_rows :=
                       update_where inst_id iid
                         (\<lambda>r. r \<lparr> status := PAID, amount_paid := amount_due inst,
                                  paid_at := Some now \<rparr>)
                         (installment_rows tx) \<rparr>" by simp
    then show ?thesis using i np c False by simp
  qed
qed

lemma payInstallment_Success_iff:
  "payInstallment lib now prisma (Some iid) = (prisma', Success code msg) \<longleftrightarrow>
     code = 200 \<and> msg = ''Payment received successfully''
     \<and> payInstallment_tx now iid prisma = Inr (prisma', ())"
  unfolding payInstallment_def prisma_transaction_def
  by (auto split: sum.splits prod.splits)

lemma siblings_after_payment:
  "list_all (\<lambda>r. status r = PAID)
     (filter (\<lambda>r. contract_id r = k)
        (update_where inst_id iid (\<lambda>r. r \<lparr> status := PAID, amount_paid := a, paid_at := p \<rparr>) rows))
   \<longleftrightarrow> list_all (\<lambda>r. inst_id r = iid \<or> status r = PAID) (filter (\<lambda>r. contract_id r = k) rows)"
  unfolding update_where_def by (induction rows) auto

lemma payInstallment_succeeds:
  assumes "findUnique inst_id (installment_rows prisma) iid = Some inst"
    and "status inst \<noteq> PAID"
    and "findUnique cc_id (creditContract_rows prisma) (contract_id inst) = Some c"
    and "findUnique tx_id (transaction_rows prisma) (transaction_id c) = Some t"
  shows "\<exists>prisma'.
      payInstallment lib now prisma (Some iid)
        = (prisma', Success 200 ''Payment received successfully'')
    \<and> findUnique inst_id (installment_rows prisma') iid
        = Some (inst \<lparr> status := PAID, amount_paid := amount_due inst, paid_at := Some now \<rparr>)"
proof -
  let ?d = "prisma \<lparr> installment_rows :=
                 update_where inst_id iid
                   (\<lambda>r. r \<lparr> status := PAID, amount_paid := amount_due inst, paid_at := Some now \<rparr>)
                   (installment_rows prisma),
               transaction_rows :=
                 (if list_all (\<lambda>r. inst_id r = iid \<or> status r = PAID)
                       (filter (\<lambda>r. contract_id r = cc_id c) (installment_rows prisma))
                  then update_where tx_id (transaction_id c) (\<lambda>t. t \<lparr> tx_status := TX_PAID \<rparr>)
                         (transaction_rows prisma)
                  else transaction_rows prisma) \<rparr>"
  have "payInstallment_tx now iid prisma = Inr (?d, ())"
    by (rule payInstallment_tx_Inr [OF assms])
  then have "payInstallment lib now prisma (Some iid)
      = (?d, Success 200 ''Payment received successfully'')"
    by (simp add: payInstallment_Success_iff)
  moreover have "findUnique inst_id (installment_rows ?d) iid
      = Some (inst \<lparr> status := PAID, amount_paid := amount_due inst, paid_at := Some now \<rparr>)"
    by (simp add: findUnique_update_where assms(1))
  ultimately show ?thesis by blast
qed

lemma payInstallment_already_paid:
  assumes "findUnique inst_id (installment_rows prisma) iid = Some inst" "status inst = PAID"
  shows "prisma_transaction (payInstallment_tx now iid) prisma = (prisma, Inl InstallmentAlreadyPaid)"
    and "payInstallment lib now prisma (Some iid) = (prisma, Failure 400 ''Installment is already paid'')"
  using assms unfolding payInstallment_def prisma_transaction_def payInstallment_tx_def
  by (simp_all add: message_def)

text \<open>
  Claim C5. For an instalment that is not PAID (and whose contract and transaction exist),
  the first PayInstallment call succeeds and sets \<open>status = PAID\<close>,
  \<open>amount_paid = amount_due\<close> and \<open>paid_at\<close> to the time of the call; a second call on
  the same id fails with the error "Installment is already paid" (HTTP 400) and returns
  the state unchanged.
\<close>

theorem pay_twice:
  assumes "findUnique inst_id (installment_rows prisma) iid = Some inst"
    and "status inst \<noteq> PAID"
    and "findUnique cc_id (creditContract_rows prisma) (contract_id inst) = Some c"
    and "findUnique tx_id (transaction_rows prisma) (transaction_id c) = Some t"
  shows "\<exists>prisma1.
      payInstallment lib now1 prisma (Some iid)
        = (prisma1, Success 200 ''Payment received successfully'')
    \<and> findUnique inst_id (installment_rows prisma1) iid
        = Some (inst \<lparr> status := PAID, amount_paid := amount_due inst, paid_at := Some now1 \<rparr>)
    \<and> prisma_transaction (payInstallment_tx now2 iid) prisma1
        = (prisma1, Inl InstallmentAlreadyPaid)
    \<and> payInstallment lib now2 prisma1 (Some iid)
        = (prisma1, Failure 400 ''Installment is already paid'')"
proof -
  from payInstallment_succeeds [OF assms, where lib = lib and now = now1] obtain prisma1 where
    p: "payInstallment lib now1 prisma (Some iid)
        = (prisma1, Success 200 ''Payment received successfully'')"
      "findUnique inst_id (installment_rows prisma1) iid
        = Some (inst \<lparr> status := PAID, amount_paid := amount_due inst, paid_at := Some now1 \<rparr>)"
    by blast
  have q: "status (inst \<lparr> status := PAID, amount_paid := amount_due inst, paid_at := Some now1 \<rparr>) = PAID"
    by simp
  from payInstallment_already_paid(1) [OF p(2) q, where now = now2]
    payInstallment_already_paid(2) [OF p(2) q, where now = now2 and lib = lib] p
  show ?thesis by blast
qed

text \<open>
  Claim C10. An instalment whose status is PARTIAL or LATE (and whose contract and
  transaction exist) is paid like an unpaid one: the call succeeds, the status becomes
  PAID and \<open>amount_paid\<close> is set to the full \<open>amount_due\<close> whatever was recorded before.
  The call is rejected as already paid exactly when the instalment exists with status
  PAID.
\<close>

theorem pay_partial_or_late:
  "(findUnique inst_id (installment_rows prisma) iid = Some inst
      \<and> (status inst = PARTIAL \<or> status inst = LATE)
      \<and> findUnique cc_id (creditContract_rows prisma) (contract_id inst) = Some c
      \<and> findUnique tx_id (transaction_rows prisma) (transaction_id c) = Some t
    \<longrightarrow> (\<exists>prisma'.
          payInstallment lib now prisma (Some iid)
            = (prisma', Success 200 ''Payment received successfully'')
        \<and> findUnique inst_id (installment_rows prisma') iid
            = Some (inst \<lparr> status := PAID, amount_paid := amount_due inst,
                            paid_at := Some now \<rparr>)))
   \<and> (snd (prisma_transaction (payInstallment_tx now iid) prisma) = Inl InstallmentAlreadyPaid
        \<longleftrightarrow> (\<exists>row. findUnique inst_id (installment_rows prisma) iid = Some row
                   \<and> status row = PAID))"
proof -
  have a: "snd (prisma_transaction (payInstallment_tx now iid) prisma) = Inl InstallmentAlreadyPaid
        \<longleftrightarrow> (\<exists>row. findUnique inst_id (installment_rows prisma) iid = Some row
                   \<and> status row = PAID)"
    unfolding prisma_transaction_def payInstallment_tx_def Let_def
    by (auto split: option.splits sum.splits prod.splits)
  have b: "\<exists>prisma'.
          payInstallment lib now prisma (Some iid)
            = (prisma', Success 200 ''Payment received successfully'')
        \<and> findUnique inst_id (installment_rows prisma') iid
            = Some (inst \<lparr> status := PAID, amount_paid := amount_due inst,
                            paid_at := Some now \<rparr>)"
    if "findUnique inst_id (installment_rows prisma) iid = Some inst"
      "status inst = PARTIAL \<or> status inst = LATE"
      "findUnique cc_id (creditContract_rows prisma) (contract_id inst) = Some c"
      "findUnique tx_id (transaction_rows prisma) (transaction_id c) = Some t"
  proof -
    from that(2) have "status inst \<noteq> PAID" by auto
    from payInstallment_succeeds [OF that(1) this that(3,4), where lib = lib and now = now]
    show ?thesis .
  qed
  from a b show ?thesis by blast
qed

text \<open>
  Claim C4. After a successful PayInstallment call, every instalment of the contract is
  PAID exactly when every sibling other than the one just paid was PAID before the call.
  In that case the call sets the parent transaction's status to PAID; otherwise the
  transaction table is left exactly as it was.
\<close>

theorem completion_propagation:
  assumes "payInstallment lib now prisma (Some iid) = (prisma', Success code msg)"
  shows "\<exists>inst c.
      findUnique inst_id (installment_rows prisma) iid = Some inst
    \<and> findUnique cc_id (creditContract_rows prisma) (contract_id inst) = Some c
    \<and> (list_all (\<lambda>r. status r = PAID)
          (filter (\<lambda>r. contract_id r = cc_id c) (installment_rows prisma'))
        \<longleftrightarrow> list_all (\<lambda>r. inst_id r = iid \<or> status r = PAID)
              (filter (\<lambda>r. contract_id r = cc_id c) (installment_rows prisma)))
    \<and> (if list_all (\<lambda>r. status r = PAID)
             (filter (\<lambda>r. contract_id r = cc_id c) (installment_rows prisma'))
        then (\<exists>t. findUnique tx_id (transaction_rows prisma) (transaction_id c) = Some t
                \<and> findUnique tx_id (transaction_rows prisma') (transaction_id c)
                    = Some (t \<lparr> tx_status := TX_PAID \<rparr>))
           \<and> transaction_rows prisma' =
               update_where tx_id (transaction_id c) (\<lambda>t. t \<lparr> tx_status := TX_PAID \<rparr>)
                 (transaction_rows prisma)
        else transaction_rows prisma' = transaction_rows prisma)"
proof -
  from assms have "payInstallment_tx now iid prisma = Inr (prisma', ())"
    by (simp add: payInstallment_Success_iff)
  from payInstallment_tx_InrD [OF this] obtain inst c where
    d: "findUnique inst_id (installment_rows prisma) iid = Some inst"
      "findUnique cc_id (creditContract_rows prisma) (contract_id inst) = Some c"
      "installment_rows prisma' =
         update_where inst_id iid
           (\<lambda>r. r \<lparr> status := PAID, amount_paid := amount_due inst, paid_at := Some now \<rparr>)
           (installment_rows prisma)"
      "if list_all (\<lambda>r. inst_id r = iid \<or> status r = PAID)
              (filter (\<lambda>r. contract_id r = cc_id c) (installment_rows prisma))
        then (\<exists>t. findUnique tx_id (transaction_rows prisma) (transaction_id c) = Some t)
           \<and> transaction_rows prisma' =
               update_where tx_id (transaction_id c) (\<lambda>t. t \<lparr> tx_status := TX_PAID \<rparr>)
                 (transaction_rows prisma)
        else transaction_rows prisma' = transaction_rows prisma"
    by blast
  have s: "list_all (\<lambda>r. status r = PAID)
          (filter (\<lambda>r. contract_id r = cc_id c) (installment_rows prisma'))
        \<longleftrightarrow> list_all (\<lambda>r. inst_id r = iid \<or> status r = PAID)
              (filter (\<lambda>r. contract_id r = cc_id c) (installment_rows prisma))"
    unfolding d(3) by (rule siblings_after_payment)
  have u: "findUnique tx_id
        (update_where tx_id (transaction_id c) (\<lambda>t. t \<lparr> tx_status := TX_PAID \<rparr>)
           (transaction_rows prisma)) (transaction_id c)
      = map_option (\<lambda>t. t \<lparr> tx_status := TX_PAID \<rparr>)
          (findUnique tx_id (transaction_rows prisma) (transaction_id c))"
    by (simp add: findUnique_update_where)
  show ?thesis
    apply (rule exI [of _ inst], rule exI [of _ c])
    using d(1,2,4) s u by (auto split: if_splits)
qed

lemmas paying_defs =
  paying_db_def sale_transaction_def sale_contract_def installment_first_def
  installment_second_def installment_third_def

lemma paying_db_rows:
  "findUnique inst_id (installment_rows paying_db) 2 = Some installment_second"
  "findUnique inst_id (installment_rows paying_db) 3 = Some installment_third"
  "findUnique cc_id (creditContract_rows paying_db) 1 = Some sale_contract"
  "findUnique tx_id (transaction_rows paying_db) 1 = Some sale_transaction"
  by (simp_all add: findUnique_def paying_defs)

lemma paying_db_fields:
  "status installment_second = UNPAID"
  "status installment_third = PARTIAL"
  "amount_paid installment_third = 500000"
  "amount_due installment_second = 1413334"
  "amount_due installment_third = 1413334"
  "contract_id installment_second = 1"
  "contract_id installment_third = 1"
  "transaction_id sale_contract = 1"
  "cc_id sale_contract = 1"
  "tx_status sale_transaction = TX_ACTIVE"
  by (simp_all add: paying_defs)

text \<open>
  Paying the unpaid second instalment succeeds and records the full 1,413,334; paying it
  again is refused and changes nothing.
\<close>

theorem pay_twice_witness:
  "map_option status (findUnique inst_id (installment_rows paying_db) 2) = Some UNPAID
   \<and> snd (payInstallment example_library feb5 paying_db (Some 2))
        = Success 200 ''Payment received successfully''
   \<and> map_option (\<lambda>r. (status r, amount_paid r, amount_due r, paid_at r))
        (findUnique inst_id
           (installment_rows (fst (payInstallment example_library feb5 paying_db (Some 2)))) 2)
        = Some (PAID, 1413334, 1413334, Some feb5)
   \<and> payInstallment example_library feb5
        (fst (payInstallment example_library feb5 paying_db (Some 2))) (Some 2)
        = (fst (payInstallment example_library feb5 paying_db (Some 2)),
           Failure 400 ''Installment is already paid'')"
proof -
  have h: "findUnique inst_id (installment_rows paying_db) 2 = Some installment_second"
    "status installment_second \<noteq> PAID"
    "findUnique cc_id (creditContract_rows paying_db) (contract_id installment_second)
       = Some (sale_contract)"
    "findUnique tx_id (transaction_rows paying_db) (transaction_id (sale_contract))
       = Some (sale_transaction)"
    by (simp_all add: paying_db_rows paying_db_fields)
  from pay_twice [OF h, where lib = example_library and ?now1.0 = feb5 and ?now2.0 = feb5]
  obtain prisma1 where
    p: "payInstallment example_library feb5 paying_db (Some 2)
        = (prisma1, Success 200 ''Payment received successfully'')"
    "findUnique inst_id (installment_rows prisma1) 2
        = Some (installment_second
             \<lparr> status := PAID, amount_paid := amount_due installment_second,
               paid_at := Some feb5 \<rparr>)"
    "payInstallment example_library feb5 prisma1 (Some 2)
        = (prisma1, Failure 400 ''Installment is already paid'')"
    by blast
  show ?thesis unfolding p(1) using p(2,3) by (simp add: paying_db_rows paying_db_fields)
qed

text \<open>
  Paying the third instalment, PARTIAL with 500,000 recorded, succeeds and records the
  full 1,413,334.
\<close>

theorem pay_partial_or_late_witness:
  "map_option (\<lambda>r. (status r, amount_paid r, amount_due r))
        (findUnique inst_id (installment_rows paying_db) 3) = Some (PARTIAL, 500000, 1413334)
   \<and> snd (payInstallment example_library feb5 paying_db (Some 3))
        = Success 200 ''Payment received successfully''
   \<and> map_option (\<lambda>r. (status r, amount_paid r, paid_at r))
        (findUnique inst_id
           (installment_rows (fst (payInstallment example_library feb5 paying_db (Some 3)))) 3)
        = Some (PAID, 1413334, Some feb5)"
proof -
  have h: "findUnique inst_id (installment_rows paying_db) 3 = Some installment_third
      \<and> (status installment_third = PARTIAL
           \<or> status installment_third = LATE)
      \<and> findUnique cc_id (creditContract_rows paying_db) (contract_id installment_third)
       = Some (sale_contract)
      \<and> findUnique tx_id (transaction_rows paying_db) (transaction_id (sale_contract))
       = Some (sale_transaction)"
    by (simp add: paying_db_rows paying_db_fields)
  from pay_partial_or_late [of paying_db 3 "installment_third"
      "sale_contract" "sale_transaction" example_library feb5] h
  obtain prisma' where
    p: "payInstallment example_library feb5 paying_db (Some 3)
        = (prisma', Success 200 ''Payment received successfully'')"
    "findUnique inst_id (installment_rows prisma') 3
        = Some (installment_third
             \<lparr> status := PAID, amount_paid := amount_due installment_third,
               paid_at := Some feb5 \<rparr>)"
    by blast
  show ?thesis unfolding p(1) using p(2) by (simp add: paying_db_rows paying_db_fields)
qed

text \<open>
  Paying the second instalment leaves the third not PAID and the transaction ACTIVE;
  paying the third then makes all three PAID and the transaction PAID.
\<close>

theorem completion_propagation_witness:
  "snd (payInstallment example_library feb5 paying_db (Some 2))
      = Success 200 ''Payment received successfully''
   \<and> map status
        (filter (\<lambda>r. contract_id r = 1)
           (installment_rows (fst (payInstallment example_library feb5 paying_db (Some 2)))))
      = [PAID, PAID, PARTIAL]
   \<and> map tx_status
        (transaction_rows (fst (payInstallment example_library feb5 paying_db (Some 2))))
      = [TX_ACTIVE]
   \<and> snd (payInstallment example_library feb5
            (fst (payInstallment example_library feb5 paying_db (Some 2))) (Some 3))
      = Success 200 ''Payment received successfully''
   \<and> map status
        (filter (\<lambda>r. contract_id r = 1)
           (installment_rows
              (fst (payInstallment example_library feb5
                     (fst (payInstallment example_library feb5 paying_db (Some 2))) (Some 3)))))
      = [PAID, PAID, PAID]
   \<and> map tx_status
        (transaction_rows
           (fst (payInstallment example_library feb5
                  (fst (payInstallment example_library feb5 paying_db (Some 2))) (Some 3))))
      = [TX_PAID]"
proof -
  define d1 where "d1 = fst (payInstallment example_library feb5 paying_db (Some 2))"
  define d2 where "d2 = fst (payInstallment example_library feb5 d1 (Some 3))"
  \<comment> \<open>first payment\<close>
  have h1: "findUnique inst_id (installment_rows paying_db) 2 = Some installment_second"
    "status installment_second \<noteq> PAID"
    "findUnique cc_id (creditContract_rows paying_db) (contract_id installment_second)
       = Some sale_contract"
    "findUnique tx_id (transaction_rows paying_db) (transaction_id sale_contract)
       = Some sale_transaction"
    by (simp_all add: paying_db_rows paying_db_fields)
  from payInstallment_succeeds [OF h1, where lib = example_library and now = feb5]
  have c1: "payInstallment example_library feb5 paying_db (Some 2)
      = (d1, Success 200 ''Payment received successfully'')"
    unfolding d1_def by auto
  then have t1: "payInstallment_tx feb5 2 paying_db = Inr (d1, ())"
    by (simp add: payInstallment_Success_iff)
  from payInstallment_tx_InrD [OF t1] h1(1)
  have r1: "installment_rows d1 =
      update_where inst_id 2
        (\<lambda>r. r \<lparr> status := PAID, amount_paid := amount_due installment_second,
                 paid_at := Some feb5 \<rparr>) (installment_rows paying_db)"
    and cc1: "creditContract_rows d1 = creditContract_rows paying_db"
    by auto
  have s1: "map status (filter (\<lambda>r. contract_id r = 1) (installment_rows d1))
      = [PAID, PAID, PARTIAL]"
    unfolding r1 by (simp add: update_where_def paying_defs)
  from completion_propagation [OF c1] h1(1,3)
  have "if list_all (\<lambda>r. status r = PAID)
             (filter (\<lambda>r. contract_id r = cc_id sale_contract) (installment_rows d1))
        then transaction_rows d1 =
               update_where tx_id (transaction_id sale_contract)
                 (\<lambda>t. t \<lparr> tx_status := TX_PAID \<rparr>) (transaction_rows paying_db)
        else transaction_rows d1 = transaction_rows paying_db"
    by (auto split: if_splits)
  moreover have "\<not> list_all (\<lambda>r. status r = PAID)
             (filter (\<lambda>r. contract_id r = cc_id sale_contract) (installment_rows d1))"
    unfolding r1 by (simp add: update_where_def paying_defs)
  ultimately have x1: "transaction_rows d1 = transaction_rows paying_db" by simp
  \<comment> \<open>second payment, of the last instalment that is not PAID\<close>
  have h2: "findUnique inst_id (installment_rows d1) 3 = Some installment_third"
    "status installment_third \<noteq> PAID"
    "findUnique cc_id (creditContract_rows d1) (contract_id installment_third) = Some sale_contract"
    "findUnique tx_id (transaction_rows d1) (transaction_id sale_contract) = Some sale_transaction"
    unfolding r1 cc1 x1
    by (simp_all add: paying_db_rows paying_db_fields findUnique_update_where)
  from payInstallment_succeeds [OF h2, where lib = example_library and now = feb5]
  have c2: "payInstallment example_library feb5 d1 (Some 3)
      = (d2, Success 200 ''Payment received successfully'')"
    unfolding d2_def by auto
  then have t2: "payInstallment_tx feb5 3 d1 = Inr (d2, ())"
    by (simp add: payInstallment_Success_iff)
  from payInstallment_tx_InrD [OF t2] h2(1)
  have r2: "installment_rows d2 =
      update_where inst_id 3
        (\<lambda>r. r \<lparr> status := PAID, amount_paid := amount_due installment_third,
                 paid_at := Some feb5 \<rparr>) (installment_rows d1)"
    by auto
  have s2: "map status (filter (\<lambda>r. contract_id r = 1) (installment_rows d2))
      = [PAID, PAID, PAID]"
    unfolding r2 r1 by (simp add: update_where_def paying_defs)
  from completion_propagation [OF c2] h2(1,3)
  have "if list_all (\<lambda>r. status r = PAID)
             (filter (\<lambda>r. contract_id r = cc_id sale_contract) (installment_rows d2))
        then transaction_rows d2 =
               update_where tx_id (transaction_id sale_contract)
                 (\<lambda>t. t \<lparr> tx_status := TX_PAID \<rparr>) (transaction_rows d1)
        else transaction_rows d2 = transaction_rows d1"
    by (auto split: if_splits)
  moreover have "list_all (\<lambda>r. status r = PAID)
             (filter (\<lambda>r. contract_id r = cc_id sale_contract) (installment_rows d2))"
    unfolding r2 r1 by (simp add: update_where_def paying_defs)
  ultimately have x2: "transaction_rows d2 =
      update_where tx_id (transaction_id sale_contract)
        (\<lambda>t. t \<lparr> tx_status := TX_PAID \<rparr>) (transaction_rows paying_db)"
    unfolding x1 by simp
  have "map tx_status (transaction_rows d1) = [TX_ACTIVE]"
    unfolding x1 by (simp add: paying_defs)
  moreover have "map tx_status (transaction_rows d2) = [TX_PAID]"
    unfolding x2 by (simp add: update_where_def paying_defs)
  ultimately show ?thesis
    using c1 c2 s1 s2 unfolding d2_def [symmetric] d1_def [symmetric]
    by simp
qed

section \<open>Request handling\<close>

lemma create_valid_body:
  assumes "body_productId body = JNum productId_v" "body_customerId body = JNum customerId_v"
    "body_price body = JNum price_v" "body_dp body = JNum dp_v"
    "body_schemeId body = JNum schemeId_v" "body_tenorMonths body = JNum tenorMonths_v"
    "body_dueDateDay body = JNum dueDateDay_v"
    and "0 < price_v" "0 \<le> dp_v" "dp_v < price_v"
    and "createTransaction now1 now2 prisma
           \<lparr> price = price_v, dp = dp_v, schemeId = schemeId_v, tenorMonths = tenorMonths_v,
             productId = productId_v, customerId = customerId_v, dueDateDay = dueDateDay_v \<rparr>
         = (prisma', Inl e)"
  shows "create lib now1 now2 prisma body
           = (prisma', Failure (create_error_status (message lib e)) (message lib e))"
  using assms unfolding create_def Let_def by simp

lemma lama_sale_fails:
  "createTransaction now1 now2 example_db
     \<lparr> price = 4500000, dp = 900000, schemeId = 3, tenorMonths = 6,
       productId = 1, customerId = 1, dueDateDay = 5 \<rparr>
   = (example_db, Inl (SchemeNotActive ''Lama''))"
proof -
  have "findUnique product_id (product_rows example_db) 1 = Some product_kulkas"
    "findUnique customer_id (customer_rows example_db) 1 = Some customer_budi"
    "findUnique scheme_id (loanScheme_rows example_db) 3 = Some scheme_lama"
    by (simp_all add: findUnique_def example_defs)
  moreover have "product_is_active product_kulkas" "\<not> stock_qty product_kulkas \<le> 0"
    by (simp_all add: product_kulkas_def)
  moreover have "\<not> scheme_is_active scheme_lama" "scheme_name scheme_lama = ''Lama''"
    by (simp_all add: scheme_lama_def)
  ultimately show ?thesis
    unfolding createTransaction_def createTransaction_tx_def prisma_transaction_def
      calculateSimulationWithTx_eq calculateSimulation_def
    by simp
qed

lemma motor_sale_fails:
  "createTransaction now1 now2 example_db
     \<lparr> price = 18000000, dp = 2000000, schemeId = 1, tenorMonths = 6,
       productId = 3, customerId = 1, dueDateDay = 5 \<rparr>
   = (example_db, Inl (ProductNotActive ''Motor''))"
proof -
  have "findUnique product_id (product_rows example_db) 3 = Some product_motor"
    by (simp add: findUnique_def example_defs)
  moreover have "\<not> product_is_active product_motor" "product_name product_motor = ''Motor''"
    by (simp_all add: product_motor_def)
  ultimately show ?thesis
    unfolding createTransaction_def createTransaction_tx_def prisma_transaction_def
    by simp
qed

lemma status_scheme_not_active:
  "create_error_status (message lib (SchemeNotActive ''Lama'')) = 400"
  by (simp add: message_def create_error_status_def)

lemma status_product_not_active:
  "create_error_status (message lib (ProductNotActive ''Motor'')) = 409"
  by (simp add: message_def create_error_status_def)

text \<open>
  Claim C7, evaluated on the code where it fails. A sale that names the inactive scheme
  "Lama" is answered with status 400, not 409: the message of the service, "Loan scheme
  \<^verbatim>\<open>"Lama"\<close> is not active", contains neither "habis" nor "tidak aktif", the two
  texts that the handler maps to 409. The sale of an inactive product, whose message ends
  in "tidak aktif", is answered with 409.
\<close>

theorem inactive_scheme_status:
  "create lib now1 now2 example_db lama_body
     = (example_db, Failure 400 ''Loan scheme \"Lama\" is not active'')
   \<and> http_status (snd (create lib now1 now2 example_db motor_body)) = 409"
proof
  have "create lib now1 now2 example_db lama_body
          = (example_db, Failure (create_error_status (message lib (SchemeNotActive ''Lama'')))
               (message lib (SchemeNotActive ''Lama'')))"
    by (rule create_valid_body [OF _ _ _ _ _ _ _ _ _ _ lama_sale_fails])
       (simp_all add: lama_body_def)
  then show "create lib now1 now2 example_db lama_body
     = (example_db, Failure 400 ''Loan scheme \"Lama\" is not active'')"
    unfolding status_scheme_not_active by (simp add: message_def)
  have "create lib now1 now2 example_db motor_body
          = (example_db, Failure (create_error_status (message lib (ProductNotActive ''Motor'')))
               (message lib (ProductNotActive ''Motor'')))"
    by (rule create_valid_body [OF _ _ _ _ _ _ _ _ _ _ motor_sale_fails])
       (simp_all add: motor_body_def)
  then show "http_status (snd (create lib now1 now2 example_db motor_body)) = 409"
    unfolding status_product_not_active by simp
qed

lemma simulate_falsy_dp:
  "falsy (body_dp body) \<Longrightarrow>
     simulate lib prisma body
       = Failure 400 ''Missing required fields: price, dp, schemeId, tenorMonths''"
  unfolding simulate_def by simp

lemma zero_dp_simulation: "calculateSimulation example_db zero_dp_input = Inr zero_dp_result"
proof -
  have s: "findUnique scheme_id (loanScheme_rows example_db) (schemeId zero_dp_input)
             = Some scheme_tanpa_dp"
    by (simp add: findUnique_def example_defs zero_dp_input_def)
  have P: "dec_minus (price zero_dp_input) (dp zero_dp_input) = 4500000"
    by (simp add: zero_dp_input_def dec_eval)
  have I: "dec_mul (dec_div (dec_mul 4500000 (interest_rate scheme_tanpa_dp)) 100)
             (of_int (tenorMonths zero_dp_input)) = 675000"
    by (simp add: zero_dp_input_def scheme_tanpa_dp_def dec_eval)
  have T: "dec_plus 4500000 675000 = 5175000" by (simp add: dec_eval)
  have M: "toDecimalPlaces_ceil (dec_div 5175000 (of_int (tenorMonths zero_dp_input)))
             = 862500"
    by (simp add: zero_dp_input_def dec_eval)
  have mn: "\<not> dec_lt (dp zero_dp_input)
              (dec_div (dec_mul (price zero_dp_input) (min_dp_percent scheme_tanpa_dp)) 100)"
    by (simp add: zero_dp_input_def scheme_tanpa_dp_def dec_eval)
  have f: "toFixed 2 4500000 = 4500000"
    "toFixed 2 (5 / 2) = 5 / 2" "toFixed 2 675000 = 675000"
    "toFixed 2 5175000 = 5175000" "toFixed 2 862500 = 862500"
    by (simp_all add: dec_eval)
  have f0: "toFixed 2 0 = 0" using toFixed_of_int [of 2 0] by simp
  note r = calculateSimulation_Inr [OF s _ _ mn _ P [symmetric] I [symmetric] T [symmetric]
      M [symmetric]]
  have "scheme_is_active scheme_tanpa_dp"
    "tenorMonths zero_dp_input \<in> set (tenor_options scheme_tanpa_dp)"
    "tenorMonths zero_dp_input \<noteq> 0"
    by (simp_all add: scheme_tanpa_dp_def zero_dp_input_def)
  from r [OF this] show ?thesis
    unfolding zero_dp_result_def by (simp add: f f0 zero_dp_input_def scheme_tanpa_dp_def)
qed

text \<open>
  Claim C8, evaluated on the code where it fails. A simulation request with price
  4,500,000, down payment 0, the active scheme without a minimum down payment and one of
  its tenors is answered with 400 "Missing required fields": \<^verbatim>\<open>!dp\<close> holds for the
  number 0. The engine itself accepts the same input and returns a breakdown.
\<close>

theorem simulate_zero_dp:
  "simulate lib example_db zero_dp_body
     = Failure 400 ''Missing required fields: price, dp, schemeId, tenorMonths''
   \<and> calculateSimulation example_db zero_dp_input = Inr zero_dp_result"
  using simulate_falsy_dp [of zero_dp_body lib example_db] zero_dp_simulation
  by (simp add: zero_dp_body_def)

end
